theory Spec2Isabelle
  imports Complex_Main "HOL-Library.AList" "HOL-Library.Char_ord" "HOL-Library.List_Lexorder"
    "HOL-Library.Product_Lexorder" "HOL-Library.Log_Nat"
begin

section \<open>Data model (internal/models)\<close>

text \<open>
  The structs of \<^verbatim>\<open>internal/models\<close> as records. Timestamps (\<^verbatim>\<open>CreatedAt\<close>,
  \<^verbatim>\<open>StartedAt\<close>, \<^verbatim>\<open>EndedAt\<close>, \<^verbatim>\<open>ConnectedAt\<close>, \<^verbatim>\<open>AnsweredAt\<close>, \<^verbatim>\<open>TTL\<close>) are left out:
  no branch of the engine reads them. Go strings are byte strings, hence \<open>string\<close>.
  Leaderboard scores are \<^verbatim>\<open>float64\<close> in the source; every score the engine writes is a
  sum of \<^verbatim>\<open>int\<close> points, so they are kept as \<open>int\<close>.
\<close>

datatype SessionStatus = SessionStatusLobby | SessionStatusActive | SessionStatusFinished

datatype PlayerRole = PlayerRoleHost | PlayerRolePlayer

record QOption =
  opt_ID :: string
  opt_Text :: string

record Question =
  q_QuestionID :: string
  q_Text :: string
  q_Options :: "QOption list"
  q_CorrectOptionID :: string
  q_TimeLimitSeconds :: int
  q_Points :: int

record Quiz =
  quiz_QuizID :: string
  quiz_HostUserID :: string
  quiz_Title :: string
  quiz_Description :: string
  quiz_Questions :: "Question list"

record Session =
  s_SessionID :: string
  s_PIN :: string
  s_QuizID :: string
  s_HostUserID :: string
  s_Status :: SessionStatus
  s_CurrentQuestionIndex :: int

record Player =
  p_SessionID :: string
  p_ConnectionID :: string
  p_UserID :: string
  p_Nickname :: string
  p_Role :: PlayerRole

record Answer =
  a_SessionID :: string
  a_UserIDQuestionID :: string
  a_QuestionID :: string
  a_UserID :: string
  a_SelectedOptionID :: string
  a_IsCorrect :: bool
  a_TimeTakenMs :: int
  a_PointsEarned :: int

record PlayerScore =
  ps_UserID :: string
  ps_Nickname :: string
  ps_Score :: int
  ps_Rank :: int

subsection \<open>WebSocket payloads (internal/models/ws_event.go)\<close>

record JoinSessionPayload =
  js_SessionID :: string
  js_Nickname :: string

record SubmitAnswerPayload =
  sa_QuestionID :: string
  sa_SelectedOptionID :: string
  sa_TimeTakenMs :: int

record PlayerJoinedPayload =
  pj_Nickname :: string
  pj_PlayerCount :: int

record QuestionPayload =
  qp_QuestionIndex :: int
  qp_TotalQuestions :: int
  qp_Text :: string
  qp_Options :: "QOption list"
  qp_TimeLimitMs :: int
  qp_Points :: int

record AnswerResultPayload =
  ar_IsCorrect :: bool
  ar_PointsEarned :: int
  ar_TotalScore :: int
  ar_Rank :: int
  ar_CorrectOption :: string

record QuestionEndedPayload =
  qe_CorrectOption :: string
  qe_Leaderboard :: "PlayerScore list"

text \<open>The \<^verbatim>\<open>interface{}\<close> payload of \<^verbatim>\<open>WSOutbound\<close> is the sum of the payload structs
  the engine puts there.\<close>

datatype Payload =
    PlayerJoined PlayerJoinedPayload
  | GameStarted int
  | QuestionP QuestionPayload
  | AnswerResult AnswerResultPayload
  | QuestionEnded QuestionEndedPayload
  | GameOver "PlayerScore list"

record WSOutbound =
  ws_Type :: string
  ws_Payload :: Payload

definition WSTypePlayerJoined :: string where "WSTypePlayerJoined = ''player_joined''"
definition WSTypeGameStarted :: string where "WSTypeGameStarted = ''game_started''"
definition WSTypeQuestion :: string where "WSTypeQuestion = ''question''"
definition WSTypeAnswerResult :: string where "WSTypeAnswerResult = ''answer_result''"
definition WSTypeQuestionEnded :: string where "WSTypeQuestionEnded = ''question_ended''"
definition WSTypeGameOver :: string where "WSTypeGameOver = ''game_over''"

section \<open>Errors, panics and the external world\<close>

text \<open>
  A Go \<^verbatim>\<open>error\<close> is a value of \<open>error\<close>: a message, a wrapped error
  (\<^verbatim>\<open>fmt.Errorf("...: %w", err)\<close>), or an error handed back by DynamoDB, Redis or the
  socket, whose text the source does not fix. A store call that returns a value and an
  error is a sum (\<open>Inl\<close> the error); one that returns only an error is an
  \<open>error option\<close> beside the new world. A function that can panic (index out of
  range, slice bounds out of range, nil dereference) has a \<open>result\<close>: \<open>Ok\<close>,
  \<open>Err\<close> with the error, or \<open>Panic\<close>.
\<close>

datatype error = Msg string | Wrap string error | StoreError | SocketError

datatype 'a result = Ok 'a | Err error | Panic string

text \<open>Every call to DynamoDB or Redis may fail; which calls fail is part of the world.\<close>

datatype extcall =
    DDB_GetSession | DDB_UpdateSessionStatus | DDB_GetQuiz
  | DDB_PutConnection | DDB_DeleteConnection | DDB_GetConnectionsBySession
  | DDB_GetSessionByConnectionID | DDB_GetAnswer | DDB_PutAnswer
  | Redis_ZAdd | Redis_ZIncrBy | Redis_HSet | Redis_ZRevRange | Redis_HGetAll
  | Redis_ZRevRank | Redis_ZScore | Redis_Del

text \<open>A connection registered in the local hub: the socket's \<^verbatim>\<open>WriteMessage\<close> succeeds
  exactly when \<open>hc_Writable\<close> holds.\<close>

record Connection =
  hc_ID :: string
  hc_SessionID :: string
  hc_Writable :: bool

text \<open>
  The world the engine runs against: the four DynamoDB tables (rows in list order; the
  connections table is keyed by session and connection identifier, the answers table by
  session and \<^verbatim>\<open>userId#questionId\<close>), the Redis sorted sets and nickname hashes per
  session, the hub of the local server, whether the broadcaster runs in local mode
  (\<^verbatim>\<open>b.Env == "local" && b.Hub != nil\<close>), and two logs: \<open>w_broadcasts\<close>, the calls of
  \<^verbatim>\<open>Broadcaster.BroadcastToSession\<close> in order (the source logs each at debug level), and
  \<open>w_delivered\<close>, the messages written to a socket.
\<close>

record World =
  w_quizzes :: "(string \<times> Quiz) list"
  w_sessions :: "(string \<times> Session) list"
  w_connections :: "((string \<times> string) \<times> Player) list"
  w_answers :: "((string \<times> string) \<times> Answer) list"
  w_leaderboards :: "(string \<times> (string \<times> int) list) list"
  w_nicknames :: "(string \<times> (string \<times> string) list) list"
  w_hub_connections :: "(string \<times> Connection) list"
  w_hub_sessions :: "(string \<times> string list) list"
  w_local :: bool
  w_failing :: "extcall list"
  w_broadcasts :: "(string \<times> WSOutbound) list"
  w_delivered :: "(string \<times> WSOutbound) list"

definition fails :: "World \<Rightarrow> extcall \<Rightarrow> bool" where
  "fails w c = (c \<in> set (w_failing w))"

text \<open>Go's \<^verbatim>\<open>int\<close> and \<^verbatim>\<open>int64\<close> are 64-bit two's complement: arithmetic on values that
  no slice length bounds wraps around, written out with \<open>wrap64\<close>. Indices and counts
  bounded by the length of a slice are plain \<open>int\<close>.\<close>

definition wrap64 :: "int \<Rightarrow> int" where
  "wrap64 x = (x + 2 ^ 63) mod 2 ^ 64 - 2 ^ 63"

section \<open>The durable store (internal/db)\<close>

text \<open>
  A table is an association list; \<^verbatim>\<open>PutItem\<close> is \<^const>\<open>AList.update\<close> (the row with
  the key is replaced where it stands, a new key is appended) and \<^verbatim>\<open>DeleteItem\<close> is
  \<^const>\<open>AList.delete\<close>. No call of the source carries a condition expression.
\<close>

definition GetSession :: "World \<Rightarrow> string \<Rightarrow> error + Session option" where
  "GetSession w sessionID =
     (if fails w DDB_GetSession then Inl StoreError
      else Inr (map_of (w_sessions w) sessionID))"

text \<open>\<^verbatim>\<open>UpdateItem\<close> with a \<^verbatim>\<open>SET\<close> expression and no condition: it writes the status and
  the index whatever the stored status is, and creates the item when the key is absent
  (the attributes it does not set are then missing, read back as zero values).\<close>

definition UpdateSessionStatus ::
  "World \<Rightarrow> string \<Rightarrow> SessionStatus \<Rightarrow> int \<Rightarrow> error option \<times> World" where
  "UpdateSessionStatus w sessionID status questionIndex =
     (if fails w DDB_UpdateSessionStatus then (Some StoreError, w)
      else (None, w\<lparr>w_sessions := AList.update sessionID
              (case map_of (w_sessions w) sessionID of
                 None \<Rightarrow> \<lparr>s_SessionID = sessionID, s_PIN = [], s_QuizID = [],
                           s_HostUserID = [], s_Status = status,
                           s_CurrentQuestionIndex = questionIndex\<rparr>
               | Some s \<Rightarrow> s\<lparr>s_Status := status, s_CurrentQuestionIndex := questionIndex\<rparr>)
              (w_sessions w)\<rparr>))"

definition GetQuiz :: "World \<Rightarrow> string \<Rightarrow> error + Quiz option" where
  "GetQuiz w quizID =
     (if fails w DDB_GetQuiz then Inl StoreError
      else Inr (map_of (w_quizzes w) quizID))"

definition PutConnection :: "World \<Rightarrow> Player \<Rightarrow> error option \<times> World" where
  "PutConnection w player =
     (if fails w DDB_PutConnection then (Some StoreError, w)
      else (None, w\<lparr>w_connections :=
              AList.update (p_SessionID player, p_ConnectionID player) player
                (w_connections w)\<rparr>))"

definition DeleteConnection :: "World \<Rightarrow> string \<Rightarrow> string \<Rightarrow> error option \<times> World" where
  "DeleteConnection w sessionID connectionID =
     (if fails w DDB_DeleteConnection then (Some StoreError, w)
      else (None, w\<lparr>w_connections :=
              AList.delete (sessionID, connectionID) (w_connections w)\<rparr>))"

definition GetConnectionsBySession :: "World \<Rightarrow> string \<Rightarrow> error + Player list" where
  "GetConnectionsBySession w sessionID =
     (if fails w DDB_GetConnectionsBySession then Inl StoreError
      else Inr (map snd (filter (\<lambda>(k, p). fst k = sessionID) (w_connections w))))"

definition GetPlayerCountBySession :: "World \<Rightarrow> string \<Rightarrow> error + int" where
  "GetPlayerCountBySession w sessionID =
     (case GetConnectionsBySession w sessionID of
        Inl err \<Rightarrow> Inl err
      | Inr players \<Rightarrow>
          Inr (int (length (filter (\<lambda>p. p_Role p = PlayerRolePlayer) players))))"

text \<open>The query on the \<^verbatim>\<open>connectionId-index\<close> with \<^verbatim>\<open>Limit 1\<close>: the first row of the
  connection identifier, an error when there is none.\<close>

definition GetSessionByConnectionID :: "World \<Rightarrow> string \<Rightarrow> error + Player" where
  "GetSessionByConnectionID w connectionID =
     (if fails w DDB_GetSessionByConnectionID then Inl StoreError
      else (case filter (\<lambda>(k, p). snd k = connectionID) (w_connections w) of
              [] \<Rightarrow> Inl (Msg (''connection '' @ connectionID @ '' not found''))
            | (k, p) # _ \<Rightarrow> Inr p))"

definition GetAnswer :: "World \<Rightarrow> string \<Rightarrow> string \<Rightarrow> string \<Rightarrow> error + Answer option" where
  "GetAnswer w sessionID userID questionID =
     (let compositeKey = userID @ ''#'' @ questionID in
      if fails w DDB_GetAnswer then Inl StoreError
      else Inr (map_of (w_answers w) (sessionID, compositeKey)))"

definition PutAnswer :: "World \<Rightarrow> Answer \<Rightarrow> error option \<times> World" where
  "PutAnswer w answer =
     (if fails w DDB_PutAnswer then (Some StoreError, w)
      else (None, w\<lparr>w_answers :=
              AList.update (a_SessionID answer, a_UserIDQuestionID answer) answer
                (w_answers w)\<rparr>))"

section \<open>The leaderboard store (internal/cache/leaderboard.go)\<close>

text \<open>
  The sorted set \<^verbatim>\<open>leaderboard:<session>\<close> and the hash \<^verbatim>\<open>nickname:<session>\<close> are
  looked up by session identifier; a missing key is the empty set or hash. Redis keeps
  a sorted set ordered by score and, among equal scores, by member (bytewise);
  \<^verbatim>\<open>ZREVRANGE\<close> reads that order backwards, with the index rules of Redis: a negative
  index counts from the end, an end past the last element is the last element.
\<close>

definition zset :: "World \<Rightarrow> string \<Rightarrow> (string \<times> int) list" where
  "zset w sessionID =
     (case map_of (w_leaderboards w) sessionID of None \<Rightarrow> [] | Some z \<Rightarrow> z)"

definition nickname_hash :: "World \<Rightarrow> string \<Rightarrow> (string \<times> string) list" where
  "nickname_hash w sessionID =
     (case map_of (w_nicknames w) sessionID of None \<Rightarrow> [] | Some h \<Rightarrow> h)"

definition zrevrange_all :: "(string \<times> int) list \<Rightarrow> (string \<times> int) list" where
  "zrevrange_all z = rev (sort_key (\<lambda>(member, score). (score, member)) z)"

definition zrange_slice :: "int \<Rightarrow> int \<Rightarrow> 'a list \<Rightarrow> 'a list" where
  "zrange_slice start stop xs =
     (let llen = int (length xs);
          start1 = (if start < 0 then llen + start else start);
          stop1 = (if stop < 0 then llen + stop else stop);
          start2 = (if start1 < 0 then 0 else start1)
      in if start2 > stop1 \<or> start2 \<ge> llen then []
         else let stop2 = (if stop1 \<ge> llen then llen - 1 else stop1)
              in take (nat (stop2 - start2 + 1)) (drop (nat start2) xs))"

definition UpsertScore :: "World \<Rightarrow> string \<Rightarrow> string \<Rightarrow> int \<Rightarrow> error option \<times> World" where
  "UpsertScore w sessionID userID score =
     (if fails w Redis_ZAdd then (Some StoreError, w)
      else (None, w\<lparr>w_leaderboards :=
              AList.update sessionID (AList.update userID score (zset w sessionID))
                (w_leaderboards w)\<rparr>))"

definition IncrementScore :: "World \<Rightarrow> string \<Rightarrow> string \<Rightarrow> int \<Rightarrow> error option \<times> World" where
  "IncrementScore w sessionID userID delta =
     (if fails w Redis_ZIncrBy then (Some StoreError, w)
      else (None, w\<lparr>w_leaderboards :=
              AList.update sessionID
                (AList.update userID
                   ((case map_of (zset w sessionID) userID of None \<Rightarrow> 0 | Some s \<Rightarrow> s) + delta)
                   (zset w sessionID))
                (w_leaderboards w)\<rparr>))"

definition SetNickname :: "World \<Rightarrow> string \<Rightarrow> string \<Rightarrow> string \<Rightarrow> error option \<times> World" where
  "SetNickname w sessionID userID nickname =
     (if fails w Redis_HSet then (Some StoreError, w)
      else (None, w\<lparr>w_nicknames :=
              AList.update sessionID (AList.update userID nickname (nickname_hash w sessionID))
                (w_nicknames w)\<rparr>))"

text \<open>The loop of \<^verbatim>\<open>GetTopN\<close> over the range read from Redis. \<^verbatim>\<open>nicknames[userID]\<close> is
  the empty string for a missing key; \<^verbatim>\<open>userID[:8]\<close> panics (slice bounds out of range)
  when the identity has fewer than 8 bytes.\<close>

fun topn_scores ::
  "(string \<times> string) list \<Rightarrow> int \<Rightarrow> (string \<times> int) list \<Rightarrow> PlayerScore list result" where
  "topn_scores nicknames i [] = Ok []"
| "topn_scores nicknames i ((userID, score) # rest) =
     (let nickname = (case map_of nicknames userID of None \<Rightarrow> [] | Some nn \<Rightarrow> nn) in
      if nickname = [] \<and> length userID < 8 then Panic ''slice bounds out of range [:8]''
      else
        (case topn_scores nicknames (i + 1) rest of
           Ok scores \<Rightarrow>
             Ok (\<lparr>ps_UserID = userID,
                  ps_Nickname = (if nickname = [] then take 8 userID else nickname),
                  ps_Score = score, ps_Rank = i + 1\<rparr> # scores)
         | Err e \<Rightarrow> Err e
         | Panic m \<Rightarrow> Panic m))"

definition GetTopN :: "World \<Rightarrow> string \<Rightarrow> int \<Rightarrow> PlayerScore list result" where
  "GetTopN w sessionID n =
     (if fails w Redis_ZRevRange then Err StoreError
      else
        let results = zrange_slice 0 (wrap64 (n - 1)) (zrevrange_all (zset w sessionID));
            nicknames = (if fails w Redis_HGetAll then [] else nickname_hash w sessionID)
        in topn_scores nicknames 0 results)"

text \<open>\<^verbatim>\<open>ZREVRANK\<close>: the position of the member in the descending order, from 0.\<close>

fun index_of :: "'a \<Rightarrow> 'a list \<Rightarrow> int option" where
  "index_of x [] = None"
| "index_of x (y # ys) =
     (if y = x then Some 0 else map_option (\<lambda>i. i + 1) (index_of x ys))"

definition GetPlayerRank :: "World \<Rightarrow> string \<Rightarrow> string \<Rightarrow> int \<times> error option" where
  "GetPlayerRank w sessionID userID =
     (if fails w Redis_ZRevRank then (-1, Some StoreError)
      else (case index_of userID (map fst (zrevrange_all (zset w sessionID))) of
              None \<Rightarrow> (-1, Some (Msg (''player '' @ userID @ '' not found in leaderboard'')))
            | Some rank \<Rightarrow> (rank + 1, None)))"

definition GetPlayerScore :: "World \<Rightarrow> string \<Rightarrow> string \<Rightarrow> int \<times> error option" where
  "GetPlayerScore w sessionID userID =
     (if fails w Redis_ZScore then (0, Some StoreError)
      else (case map_of (zset w sessionID) userID of
              None \<Rightarrow> (0, None)
            | Some score \<Rightarrow> (score, None)))"

definition DeleteSession :: "World \<Rightarrow> string \<Rightarrow> error option \<times> World" where
  "DeleteSession w sessionID =
     (if fails w Redis_Del then (Some StoreError, w)
      else (None, w\<lparr>w_leaderboards := AList.delete sessionID (w_leaderboards w),
                    w_nicknames := AList.delete sessionID (w_nicknames w)\<rparr>))"

section \<open>The score calculator (internal/game, CalculateScore)\<close>

text \<open>
  Go's \<^verbatim>\<open>float64\<close> is the IEEE-754 binary64 format: every conversion from an integer
  and every arithmetic operation returns the exact result rounded to the nearest
  number with a 53-bit significand, ties to the even significand. \<open>fl64\<close> is that
  rounding on the rationals: for \<open>x \<noteq> 0\<close> with \<open>2^e \<le> |x| < 2^(e+1)\<close> the
  spacing of the floats around \<open>x\<close> is \<open>2^(e-52)\<close>. Every operand of
  \<^verbatim>\<open>CalculateScore\<close> is zero or has a magnitude between \<open>2^-64\<close> and \<open>2^64\<close>,
  far from overflow and from the subnormal range, which the model leaves out. The
  conversion \<^verbatim>\<open>int(f)\<close> truncates towards zero.
\<close>

definition ilog2 :: "rat \<Rightarrow> int" where
  "ilog2 x = (case quotient_of \<bar>x\<bar> of (p, q) \<Rightarrow>
     (let d = bitlen p - bitlen q in if 2 powi d \<le> \<bar>x\<bar> then d else d - 1))"

definition rne :: "rat \<Rightarrow> int" where
  "rne x = (let f = \<lfloor>x\<rfloor>; d = x - of_int f in
     if d < 1 / 2 then f else if 1 / 2 < d then f + 1 else if even f then f else f + 1)"

definition fl64 :: "rat \<Rightarrow> rat" where
  "fl64 x = (if x = 0 then 0 else
     (let u = 2 powi (ilog2 x - 52) in of_int (rne (x / u)) * u))"

definition go_int :: "rat \<Rightarrow> int" where
  "go_int x = (if 0 \<le> x then \<lfloor>x\<rfloor> else \<lceil>x\<rceil>)"

definition CalculateScore :: "bool \<Rightarrow> int \<Rightarrow> int \<Rightarrow> int \<Rightarrow> int" where
  "CalculateScore isCorrect timeTakenMs timeLimitMs basePoints =
     (if \<not> isCorrect then 0
      else if timeLimitMs \<le> 0 then basePoints
      else
        let t1 = (if timeTakenMs < 0 then 0 else timeTakenMs);
            t2 = (if t1 > timeLimitMs then timeLimitMs else t1);
            timeRatio = fl64 (fl64 (of_int t2) / fl64 (of_int timeLimitMs));
            bonus = go_int (fl64 (fl64 (fl64 (of_int basePoints) * (1 / 2))
                                  * fl64 (1 - timeRatio)))
        in wrap64 (basePoints + bonus))"


section \<open>The broadcaster and the local hub (internal/game/broadcast.go)\<close>

text \<open>
  The hub's and the broadcaster's functions take the serialised message; the model
  carries the \<open>WSOutbound\<close> value itself (\<^verbatim>\<open>json.Marshal\<close> cannot fail on the payload
  structs of the engine, so its error branch is not a branch of the model).
\<close>

definition Hub_SendToConnection :: "World \<Rightarrow> string \<Rightarrow> WSOutbound \<Rightarrow> error option \<times> World" where
  "Hub_SendToConnection w connectionID data =
     (case map_of (w_hub_connections w) connectionID of
        None \<Rightarrow> (Some (Msg (''connection '' @ connectionID @ '' not found in hub'')), w)
      | Some conn \<Rightarrow>
          if hc_Writable conn
          then (None, w\<lparr>w_delivered := w_delivered w @ [(connectionID, data)]\<rparr>)
          else (Some SocketError, w))"

fun hub_broadcast_loop ::
  "World \<Rightarrow> string list \<Rightarrow> WSOutbound \<Rightarrow> error option \<Rightarrow> error option \<times> World" where
  "hub_broadcast_loop w [] data lastErr = (lastErr, w)"
| "hub_broadcast_loop w (cid # ids) data lastErr =
     (case Hub_SendToConnection w cid data of
        (Some err, w') \<Rightarrow> hub_broadcast_loop w' ids data (Some err)
      | (None, w') \<Rightarrow> hub_broadcast_loop w' ids data lastErr)"

text \<open>The identifiers of a session are read from a Go map, in no fixed order: the
  order of the list in \<open>w_hub_sessions\<close> stands for it.\<close>

definition Hub_BroadcastToSession :: "World \<Rightarrow> string \<Rightarrow> WSOutbound \<Rightarrow> error option \<times> World" where
  "Hub_BroadcastToSession w sessionID data =
     (case map_of (w_hub_sessions w) sessionID of
        None \<Rightarrow> (None, w)
      | Some connIDs \<Rightarrow> hub_broadcast_loop w connIDs data None)"

text \<open>Outside local mode \<^verbatim>\<open>SendToConnection\<close> only logs that the production send is not
  implemented, and returns nil.\<close>

definition SendToConnection :: "World \<Rightarrow> string \<Rightarrow> WSOutbound \<Rightarrow> error option \<times> World" where
  "SendToConnection w connectionID payload =
     (if w_local w then Hub_SendToConnection w connectionID payload
      else (None, w))"

text \<open>The production fan-out starts one goroutine per connection and waits for all of
  them; each deletes its connection when its send fails. The goroutines are run here
  one after the other, in the order of the query result.\<close>

fun fanout :: "World \<Rightarrow> string \<Rightarrow> Player list \<Rightarrow> WSOutbound \<Rightarrow> World" where
  "fanout w sessionID [] payload = w"
| "fanout w sessionID (conn # conns) payload =
     (case SendToConnection w (p_ConnectionID conn) payload of
        (Some sendErr, w') \<Rightarrow>
          fanout (snd (DeleteConnection w' sessionID (p_ConnectionID conn))) sessionID conns payload
      | (None, w') \<Rightarrow> fanout w' sessionID conns payload)"

definition BroadcastToSession :: "World \<Rightarrow> string \<Rightarrow> WSOutbound \<Rightarrow> error option \<times> World" where
  "BroadcastToSession w0 sessionID payload =
     (let w = w0\<lparr>w_broadcasts := w_broadcasts w0 @ [(sessionID, payload)]\<rparr> in
      if w_local w then Hub_BroadcastToSession w sessionID payload
      else (case GetConnectionsBySession w sessionID of
              Inl err \<Rightarrow> (Some (Wrap ''failed to get connections'' err), w)
            | Inr connections \<Rightarrow> (None, fanout w sessionID connections payload)))"

section \<open>The game engine (internal/game/engine.go)\<close>

record Claims =
  c_UserID :: string
  c_Email :: string
  c_Username :: string
  c_Role :: string

text \<open>
  Of the \<^verbatim>\<open>context.Context\<close> a handler receives, the engine reads only the claims
  stored under \<^verbatim>\<open>claimsKey("userClaims")\<close>: the context is modelled as that value,
  \<open>None\<close> when the context carries no claims. A handler returns its result and the
  world it leaves behind. \<open>return\<close> turns a returned \<^verbatim>\<open>error\<close> into the result.
\<close>

definition getClaimsFromContext :: "Claims option \<Rightarrow> Claims option" where
  "getClaimsFromContext ctx = ctx"

definition return :: "error option \<times> World \<Rightarrow> unit result \<times> World" where
  "return r = (case r of (None, w) \<Rightarrow> (Ok (), w) | (Some err, w) \<Rightarrow> (Err err, w))"

definition HandleJoinSession ::
  "Claims option \<Rightarrow> World \<Rightarrow> string \<Rightarrow> JoinSessionPayload \<Rightarrow> unit result \<times> World" where
  "HandleJoinSession ctx w connectionID payload =
     (if length (js_Nickname payload) = 0 \<or> length (js_Nickname payload) > 20
      then (Err (Msg ''nickname must be between 1 and 20 characters''), w)
      else
        (case GetSession w (js_SessionID payload) of
           Inl err \<Rightarrow> (Err (Wrap ''failed to get session'' err), w)
         | Inr None \<Rightarrow> (Err (Msg ''session not found''), w)
         | Inr (Some session) \<Rightarrow>
             if s_Status session \<noteq> SessionStatusLobby
             then (Err (Msg ''game already started''), w)
             else
               (case GetPlayerCountBySession w (js_SessionID payload) of
                  Inl err \<Rightarrow> (Err (Wrap ''failed to get player count'' err), w)
                | Inr count \<Rightarrow>
                    if count \<ge> 2000
                    then (Err (Msg ''session is full (max 2000 players)''), w)
                    else
                      let userID = (case getClaimsFromContext ctx of
                                      None \<Rightarrow> ''anonymous''
                                    | Some claims \<Rightarrow> c_UserID claims);
                          player = \<lparr>p_SessionID = js_SessionID payload,
                                    p_ConnectionID = connectionID,
                                    p_UserID = userID,
                                    p_Nickname = js_Nickname payload,
                                    p_Role = PlayerRolePlayer\<rparr>
                      in
                        (case PutConnection w player of
                           (Some err, w1) \<Rightarrow> (Err (Wrap ''failed to register connection'' err), w1)
                         | (None, w1) \<Rightarrow>
                             let w2 = snd (UpsertScore w1 (js_SessionID payload) userID 0);
                                 w3 = snd (SetNickname w2 (js_SessionID payload) userID
                                             (js_Nickname payload));
                                 newCount = count + 1
                             in return (BroadcastToSession w3 (js_SessionID payload)
                                  \<lparr>ws_Type = WSTypePlayerJoined,
                                   ws_Payload = PlayerJoined
                                     \<lparr>pj_Nickname = js_Nickname payload,
                                      pj_PlayerCount = newCount\<rparr>\<rparr>)))))"

text \<open>The message \<^verbatim>\<open>sendQuestion\<close> builds from the question at an index that is in
  range.\<close>

definition questionMessage :: "Quiz \<Rightarrow> int \<Rightarrow> WSOutbound" where
  "questionMessage quiz index =
     (let q = quiz_Questions quiz ! nat index in
      \<lparr>ws_Type = WSTypeQuestion,
       ws_Payload = QuestionP
         \<lparr>qp_QuestionIndex = index,
          qp_TotalQuestions = int (length (quiz_Questions quiz)),
          qp_Text = q_Text q,
          qp_Options = q_Options q,
          qp_TimeLimitMs = wrap64 (q_TimeLimitSeconds q * 1000),
          qp_Points = q_Points q\<rparr>\<rparr>)"

definition sendQuestion :: "World \<Rightarrow> string \<Rightarrow> Quiz \<Rightarrow> int \<Rightarrow> unit result \<times> World" where
  "sendQuestion w sessionID quiz index =
     (if index < 0 \<or> index \<ge> int (length (quiz_Questions quiz))
      then (Panic ''index out of range'', w)
      else return (BroadcastToSession w sessionID (questionMessage quiz index)))"

text \<open>\<^verbatim>\<open>endGame\<close> starts the deletion of the session's leaderboard in a goroutine of its
  own and returns; the model runs the deletion before the return. Its error is
  dropped, as in the source.\<close>

definition endGame :: "World \<Rightarrow> string \<Rightarrow> unit result \<times> World" where
  "endGame w sessionID =
     (case UpdateSessionStatus w sessionID SessionStatusFinished (- 1) of
        (Some err, w1) \<Rightarrow> (Err (Wrap ''failed to update session status'' err), w1)
      | (None, w1) \<Rightarrow>
          (case GetTopN w1 sessionID 100 of
             Panic m \<Rightarrow> (Panic m, w1)
           | topn \<Rightarrow>
               let leaderboard = (case topn of Ok l \<Rightarrow> l | _ \<Rightarrow> []) in
               (case BroadcastToSession w1 sessionID
                       \<lparr>ws_Type = WSTypeGameOver, ws_Payload = GameOver leaderboard\<rparr> of
                  (Some err, w2) \<Rightarrow> (Err err, w2)
                | (None, w2) \<Rightarrow> (Ok (), snd (DeleteSession w2 sessionID)))))"

definition HandleStartGame :: "World \<Rightarrow> string \<Rightarrow> string \<Rightarrow> unit result \<times> World" where
  "HandleStartGame w connectionID sessionID =
     (case GetSession w sessionID of
        Inl err \<Rightarrow> (Err (Wrap ''failed to get session'' err), w)
      | Inr None \<Rightarrow> (Err (Msg ''session not found''), w)
      | Inr (Some session) \<Rightarrow>
          if s_Status session \<noteq> SessionStatusLobby
          then (Err (Msg ''game already started''), w)
          else
            (case GetSessionByConnectionID w connectionID of
               Inl err \<Rightarrow> (Err (Wrap ''failed to verify host'' err), w)
             | Inr conn \<Rightarrow>
                 if p_Role conn \<noteq> PlayerRoleHost
                 then (Err (Msg ''only the host can start the game''), w)
                 else
                   (case GetQuiz w (s_QuizID session) of
                      Inl err \<Rightarrow> (Err (Wrap ''failed to get quiz'' err), w)
                    | Inr None \<Rightarrow> (Err (Msg ''quiz not found''), w)
                    | Inr (Some quiz) \<Rightarrow>
                        (case UpdateSessionStatus w sessionID SessionStatusActive 0 of
                           (Some err, w1) \<Rightarrow>
                             (Err (Wrap ''failed to update session status'' err), w1)
                         | (None, w1) \<Rightarrow>
                             (case BroadcastToSession w1 sessionID
                                     \<lparr>ws_Type = WSTypeGameStarted,
                                      ws_Payload = GameStarted
                                        (int (length (quiz_Questions quiz)))\<rparr> of
                                (Some err, w2) \<Rightarrow> (Err err, w2)
                              | (None, w2) \<Rightarrow> sendQuestion w2 sessionID quiz 0)))))"

text \<open>\<^verbatim>\<open>GetQuiz\<close> returns a nil quiz without an error when the quiz is missing;
  \<^verbatim>\<open>HandleSubmitAnswer\<close> then dereferences it.\<close>

definition HandleSubmitAnswer ::
  "World \<Rightarrow> string \<Rightarrow> SubmitAnswerPayload \<Rightarrow> unit result \<times> World" where
  "HandleSubmitAnswer w connectionID payload =
     (case GetSessionByConnectionID w connectionID of
        Inl err \<Rightarrow> (Err (Wrap ''failed to find connection'' err), w)
      | Inr conn \<Rightarrow>
          (case GetSession w (p_SessionID conn) of
             Inl err \<Rightarrow> (Err (Wrap ''failed to get session'' err), w)
           | Inr None \<Rightarrow> (Err (Msg ''game is not active''), w)
           | Inr (Some session) \<Rightarrow>
               if s_Status session \<noteq> SessionStatusActive
               then (Err (Msg ''game is not active''), w)
               else
                 (case GetAnswer w (p_SessionID conn) (p_UserID conn) (sa_QuestionID payload) of
                    Inl err \<Rightarrow> (Err (Wrap ''failed to check existing answer'' err), w)
                  | Inr (Some existing) \<Rightarrow> (Err (Msg ''already answered this question''), w)
                  | Inr None \<Rightarrow>
                      (case GetQuiz w (s_QuizID session) of
                         Inl err \<Rightarrow> (Err (Wrap ''failed to get quiz'' err), w)
                       | Inr None \<Rightarrow> (Panic ''nil pointer dereference'', w)
                       | Inr (Some quiz) \<Rightarrow>
                           (case find (\<lambda>q. q_QuestionID q = sa_QuestionID payload)
                                   (quiz_Questions quiz) of
                              None \<Rightarrow> (Err (Msg ''question not found''), w)
                            | Some question \<Rightarrow>
                                let isCorrect =
                                      (sa_SelectedOptionID payload = q_CorrectOptionID question);
                                    timeLimitMs = wrap64 (q_TimeLimitSeconds question * 1000);
                                    pointsEarned =
                                      CalculateScore isCorrect (sa_TimeTakenMs payload)
                                        timeLimitMs (q_Points question);
                                    answer =
                                      \<lparr>a_SessionID = p_SessionID conn,
                                       a_UserIDQuestionID =
                                         p_UserID conn @ ''#'' @ sa_QuestionID payload,
                                       a_QuestionID = sa_QuestionID payload,
                                       a_UserID = p_UserID conn,
                                       a_SelectedOptionID = sa_SelectedOptionID payload,
                                       a_IsCorrect = isCorrect,
                                       a_TimeTakenMs = sa_TimeTakenMs payload,
                                       a_PointsEarned = pointsEarned\<rparr>
                                in
                                  (case PutAnswer w answer of
                                     (Some err, w1) \<Rightarrow>
                                       (Err (Wrap ''failed to store answer'' err), w1)
                                   | (None, w1) \<Rightarrow>
                                       let w2 = (if pointsEarned > 0
                                                 then snd (IncrementScore w1 (p_SessionID conn)
                                                             (p_UserID conn) pointsEarned)
                                                 else w1);
                                           rank = fst (GetPlayerRank w2 (p_SessionID conn)
                                                         (p_UserID conn));
                                           totalScore = fst (GetPlayerScore w2 (p_SessionID conn)
                                                               (p_UserID conn))
                                       in return (SendToConnection w2 connectionID
                                            \<lparr>ws_Type = WSTypeAnswerResult,
                                             ws_Payload = AnswerResult
                                               \<lparr>ar_IsCorrect = isCorrect,
                                                ar_PointsEarned = pointsEarned,
                                                ar_TotalScore = totalScore,
                                                ar_Rank = rank,
                                                ar_CorrectOption =
                                                  q_CorrectOptionID question\<rparr>\<rparr>)))))))"

text \<open>
  \<^verbatim>\<open>HandleNextQuestion\<close> checks the caller's role and nothing else: it dereferences the
  session and the quiz as they come back from the store (a missing one is nil) and
  indexes the questions with the stored index. The next index is used only after that
  indexing has not panicked, so the addition cannot overflow.
\<close>

definition HandleNextQuestion :: "World \<Rightarrow> string \<Rightarrow> string \<Rightarrow> unit result \<times> World" where
  "HandleNextQuestion w connectionID sessionID =
     (case GetSessionByConnectionID w connectionID of
        Inl err \<Rightarrow> (Err (Wrap ''failed to verify host'' err), w)
      | Inr conn \<Rightarrow>
          if p_Role conn \<noteq> PlayerRoleHost
          then (Err (Msg ''only the host can advance questions''), w)
          else
            (case GetSession w sessionID of
               Inl err \<Rightarrow> (Err (Wrap ''failed to get session'' err), w)
             | Inr None \<Rightarrow> (Panic ''nil pointer dereference'', w)
             | Inr (Some session) \<Rightarrow>
                 (case GetQuiz w (s_QuizID session) of
                    Inl err \<Rightarrow> (Err (Wrap ''failed to get quiz'' err), w)
                  | Inr quizOpt \<Rightarrow>
                      let nextIndex = s_CurrentQuestionIndex session + 1 in
                      (case GetTopN w sessionID 10 of
                         Panic m \<Rightarrow> (Panic m, w)
                       | topn \<Rightarrow>
                           let leaderboard = (case topn of Ok l \<Rightarrow> l | _ \<Rightarrow> []) in
                           (case quizOpt of
                              None \<Rightarrow> (Panic ''nil pointer dereference'', w)
                            | Some quiz \<Rightarrow>
                                if s_CurrentQuestionIndex session < 0
                                   \<or> s_CurrentQuestionIndex session
                                       \<ge> int (length (quiz_Questions quiz))
                                then (Panic ''index out of range'', w)
                                else
                                  let currentQuestion =
                                        quiz_Questions quiz
                                          ! nat (s_CurrentQuestionIndex session);
                                      w1 = snd (BroadcastToSession w sessionID
                                             \<lparr>ws_Type = WSTypeQuestionEnded,
                                              ws_Payload = QuestionEnded
                                                \<lparr>qe_CorrectOption =
                                                   q_CorrectOptionID currentQuestion,
                                                 qe_Leaderboard = leaderboard\<rparr>\<rparr>)
                                  in
                                    if nextIndex \<ge> int (length (quiz_Questions quiz))
                                    then endGame w1 sessionID
                                    else
                                      (case UpdateSessionStatus w1 sessionID
                                              SessionStatusActive nextIndex of
                                         (Some err, w2) \<Rightarrow>
                                           (Err (Wrap ''failed to update session'' err), w2)
                                       | (None, w2) \<Rightarrow>
                                           sendQuestion w2 sessionID quiz nextIndex))))))"

definition HandleEndGame :: "World \<Rightarrow> string \<Rightarrow> string \<Rightarrow> unit result \<times> World" where
  "HandleEndGame w connectionID sessionID =
     (case GetSessionByConnectionID w connectionID of
        Inl err \<Rightarrow> (Err (Wrap ''failed to verify host'' err), w)
      | Inr conn \<Rightarrow>
          if p_Role conn \<noteq> PlayerRoleHost
          then (Err (Msg ''only the host can end the game''), w)
          else endGame w sessionID)"

text \<open>The inbound envelope after \<^verbatim>\<open>json.Unmarshal\<close>: the action and its payload.\<close>

datatype WSInbound =
    JoinSession JoinSessionPayload
  | SubmitAnswer SubmitAnswerPayload
  | StartGame string
  | NextQuestion string
  | EndGame string
  | UnknownAction string

definition HandleMessage ::
  "Claims option \<Rightarrow> World \<Rightarrow> string \<Rightarrow> WSInbound \<Rightarrow> unit result \<times> World" where
  "HandleMessage ctx w connectionID msg =
     (case msg of
        JoinSession payload \<Rightarrow> HandleJoinSession ctx w connectionID payload
      | SubmitAnswer payload \<Rightarrow> HandleSubmitAnswer w connectionID payload
      | StartGame sessionID \<Rightarrow> HandleStartGame w connectionID sessionID
      | NextQuestion sessionID \<Rightarrow> HandleNextQuestion w connectionID sessionID
      | EndGame sessionID \<Rightarrow> HandleEndGame w connectionID sessionID
      | UnknownAction action \<Rightarrow> (Err (Msg (''unknown action: '' @ action)), w))"

subsection \<open>The two phases of HandleSubmitAnswer\<close>

text \<open>
  \<^verbatim>\<open>HandleSubmitAnswer\<close> holds no lock and opens no transaction: it first only reads
  (connection, session, existing answer, quiz) and computes the answer record, then
  writes (\<^verbatim>\<open>PutAnswer\<close>, \<^verbatim>\<open>IncrementScore\<close>) and replies. \<open>submit_read\<close> is the first
  phase: \<open>Inl\<close> the result of an early return, \<open>Inr\<close> the connection, the question
  and the answer record the second phase works with. \<open>submit_write\<close> is the second
  phase. Two calls that run at the same time can pass through their phases in any
  order.
\<close>

definition submit_read ::
  "World \<Rightarrow> string \<Rightarrow> SubmitAnswerPayload \<Rightarrow> unit result + (Player \<times> Question \<times> Answer)" where
  "submit_read w connectionID payload =
     (case GetSessionByConnectionID w connectionID of
        Inl err \<Rightarrow> Inl (Err (Wrap ''failed to find connection'' err))
      | Inr conn \<Rightarrow>
          (case GetSession w (p_SessionID conn) of
             Inl err \<Rightarrow> Inl (Err (Wrap ''failed to get session'' err))
           | Inr None \<Rightarrow> Inl (Err (Msg ''game is not active''))
           | Inr (Some session) \<Rightarrow>
               if s_Status session \<noteq> SessionStatusActive
               then Inl (Err (Msg ''game is not active''))
               else
                 (case GetAnswer w (p_SessionID conn) (p_UserID conn) (sa_QuestionID payload) of
                    Inl err \<Rightarrow> Inl (Err (Wrap ''failed to check existing answer'' err))
                  | Inr (Some existing) \<Rightarrow> Inl (Err (Msg ''already answered this question''))
                  | Inr None \<Rightarrow>
                      (case GetQuiz w (s_QuizID session) of
                         Inl err \<Rightarrow> Inl (Err (Wrap ''failed to get quiz'' err))
                       | Inr None \<Rightarrow> Inl (Panic ''nil pointer dereference'')
                       | Inr (Some quiz) \<Rightarrow>
                           (case find (\<lambda>q. q_QuestionID q = sa_QuestionID payload)
                                   (quiz_Questions quiz) of
                              None \<Rightarrow> Inl (Err (Msg ''question not found''))
                            | Some question \<Rightarrow>
                                let isCorrect =
                                      (sa_SelectedOptionID payload = q_CorrectOptionID question);
                                    timeLimitMs = wrap64 (q_TimeLimitSeconds question * 1000);
                                    pointsEarned =
                                      CalculateScore isCorrect (sa_TimeTakenMs payload)
                                        timeLimitMs (q_Points question)
                                in Inr (conn, question,
                                      \<lparr>a_SessionID = p_SessionID conn,
                                       a_UserIDQuestionID =
                                         p_UserID conn @ ''#'' @ sa_QuestionID payload,
                                       a_QuestionID = sa_QuestionID payload,
                                       a_UserID = p_UserID conn,
                                       a_SelectedOptionID = sa_SelectedOptionID payload,
                                       a_IsCorrect = isCorrect,
                                       a_TimeTakenMs = sa_TimeTakenMs payload,
                                       a_PointsEarned = pointsEarned\<rparr>))))))"

definition submit_write ::
  "World \<Rightarrow> string \<Rightarrow> Player \<times> Question \<times> Answer \<Rightarrow> unit result \<times> World" where
  "submit_write w connectionID pending =
     (case pending of (conn, question, answer) \<Rightarrow>
        (case PutAnswer w answer of
           (Some err, w1) \<Rightarrow> (Err (Wrap ''failed to store answer'' err), w1)
         | (None, w1) \<Rightarrow>
             let w2 = (if a_PointsEarned answer > 0
                       then snd (IncrementScore w1 (p_SessionID conn) (p_UserID conn)
                                   (a_PointsEarned answer))
                       else w1);
                 rank = fst (GetPlayerRank w2 (p_SessionID conn) (p_UserID conn));
                 totalScore = fst (GetPlayerScore w2 (p_SessionID conn) (p_UserID conn))
             in return (SendToConnection w2 connectionID
                  \<lparr>ws_Type = WSTypeAnswerResult,
                   ws_Payload = AnswerResult
                     \<lparr>ar_IsCorrect = a_IsCorrect answer,
                      ar_PointsEarned = a_PointsEarned answer,
                      ar_TotalScore = totalScore,
                      ar_Rank = rank,
                      ar_CorrectOption = q_CorrectOptionID question\<rparr>\<rparr>)))"

section \<open>Serialisation of outbound events\<close>

text \<open>
  \<^verbatim>\<open>json.Marshal\<close> writes a struct as an object with one member per field, named by
  the field's \<^verbatim>\<open>json\<close> tag, in the order of declaration. A nil slice, which Go writes
  as \<^verbatim>\<open>null\<close>, is not told apart from an empty one.
\<close>

datatype json =
    JNull | JBool bool | JNum int | JStr string | JArr "json list"
  | JObj "(string \<times> json) list"

fun json_keys :: "json \<Rightarrow> string list" where
  "json_keys JNull = []"
| "json_keys (JBool b) = []"
| "json_keys (JNum n) = []"
| "json_keys (JStr s) = []"
| "json_keys (JArr xs) = concat (map json_keys xs)"
| "json_keys (JObj kvs) = concat (map (\<lambda>kv. fst kv # json_keys (snd kv)) kvs)"

definition marshalOption :: "QOption \<Rightarrow> json" where
  "marshalOption opt = JObj [(''id'', JStr (opt_ID opt)), (''text'', JStr (opt_Text opt))]"

definition marshalPlayerScore :: "PlayerScore \<Rightarrow> json" where
  "marshalPlayerScore ps =
     JObj [(''userId'', JStr (ps_UserID ps)), (''nickname'', JStr (ps_Nickname ps)),
           (''score'', JNum (ps_Score ps)), (''rank'', JNum (ps_Rank ps))]"

fun marshalPayload :: "Payload \<Rightarrow> json" where
  "marshalPayload (PlayerJoined p) =
     JObj [(''nickname'', JStr (pj_Nickname p)), (''playerCount'', JNum (pj_PlayerCount p))]"
| "marshalPayload (GameStarted n) = JObj [(''totalQuestions'', JNum n)]"
| "marshalPayload (QuestionP p) =
     JObj [(''questionIndex'', JNum (qp_QuestionIndex p)),
           (''totalQuestions'', JNum (qp_TotalQuestions p)),
           (''text'', JStr (qp_Text p)),
           (''options'', JArr (map marshalOption (qp_Options p))),
           (''timeLimitMs'', JNum (qp_TimeLimitMs p)),
           (''points'', JNum (qp_Points p))]"
| "marshalPayload (AnswerResult p) =
     JObj [(''isCorrect'', JBool (ar_IsCorrect p)),
           (''pointsEarned'', JNum (ar_PointsEarned p)),
           (''totalScore'', JNum (ar_TotalScore p)),
           (''rank'', JNum (ar_Rank p)),
           (''correctOptionId'', JStr (ar_CorrectOption p))]"
| "marshalPayload (QuestionEnded p) =
     JObj [(''correctOptionId'', JStr (qe_CorrectOption p)),
           (''leaderboard'', JArr (map marshalPlayerScore (qe_Leaderboard p)))]"
| "marshalPayload (GameOver l) =
     JObj [(''finalLeaderboard'', JArr (map marshalPlayerScore l))]"

definition marshal :: "WSOutbound \<Rightarrow> json" where
  "marshal m = JObj [(''type'', JStr (ws_Type m)), (''payload'', marshalPayload (ws_Payload m))]"

section \<open>A sample quiz and session\<close>

text \<open>The quiz and the session of the specification's end-to-end scenario: two
  questions (20 s for 1000 points, 10 s for 500 points), a host connection and two
  player connections, the session in the lobby, no store or cache call failing, the
  broadcaster in production mode.\<close>

definition sample_quiz :: Quiz where
  "sample_quiz =
     \<lparr>quiz_QuizID = ''quiz-1'', quiz_HostUserID = ''host-user'', quiz_Title = ''Demo'',
      quiz_Description = [],
      quiz_Questions =
        [\<lparr>q_QuestionID = ''q1'', q_Text = ''first'',
          q_Options = [\<lparr>opt_ID = ''optA'', opt_Text = ''a''\<rparr>,
                       \<lparr>opt_ID = ''optB'', opt_Text = ''b''\<rparr>],
          q_CorrectOptionID = ''optA'', q_TimeLimitSeconds = 20, q_Points = 1000\<rparr>,
         \<lparr>q_QuestionID = ''q2'', q_Text = ''second'',
          q_Options = [\<lparr>opt_ID = ''optA'', opt_Text = ''a''\<rparr>,
                       \<lparr>opt_ID = ''optB'', opt_Text = ''b''\<rparr>],
          q_CorrectOptionID = ''optB'', q_TimeLimitSeconds = 10, q_Points = 500\<rparr>]\<rparr>"

definition sample_session :: "SessionStatus \<Rightarrow> int \<Rightarrow> Session" where
  "sample_session status index =
     \<lparr>s_SessionID = ''s1'', s_PIN = ''123456'', s_QuizID = ''quiz-1'',
      s_HostUserID = ''host-user'', s_Status = status, s_CurrentQuestionIndex = index\<rparr>"

definition sample_world :: World where
  "sample_world =
     \<lparr>w_quizzes = [(''quiz-1'', sample_quiz)],
      w_sessions = [(''s1'', sample_session SessionStatusLobby 0)],
      w_connections =
        [((''s1'', ''conn-host''),
          \<lparr>p_SessionID = ''s1'', p_ConnectionID = ''conn-host'', p_UserID = ''host-user'',
           p_Nickname = [], p_Role = PlayerRoleHost\<rparr>),
         ((''s1'', ''conn-1''),
          \<lparr>p_SessionID = ''s1'', p_ConnectionID = ''conn-1'', p_UserID = ''anon-1a2b3c4d'',
           p_Nickname = [], p_Role = PlayerRolePlayer\<rparr>),
         ((''s1'', ''conn-2''),
          \<lparr>p_SessionID = ''s1'', p_ConnectionID = ''conn-2'', p_UserID = ''anon-5e6f7a8b'',
           p_Nickname = [], p_Role = PlayerRolePlayer\<rparr>)],
      w_answers = [], w_leaderboards = [], w_nicknames = [],
      w_hub_connections = [], w_hub_sessions = [], w_local = False, w_failing = [],
      w_broadcasts = [], w_delivered = []\<rparr>"

definition active_world :: World where
  "active_world = sample_world\<lparr>w_sessions := [(''s1'', sample_session SessionStatusActive 0)]\<rparr>"

definition finished_world :: World where
  "finished_world =
     sample_world\<lparr>w_sessions := [(''s1'', sample_session SessionStatusFinished (- 1))]\<rparr>"

text \<open>The local server: the hub knows the host's and the first player's sockets, and
  the host's socket no longer accepts a write.\<close>

definition hub_world :: World where
  "hub_world =
     sample_world\<lparr>w_local := True,
       w_hub_connections :=
         [(''conn-host'', \<lparr>hc_ID = ''conn-host'', hc_SessionID = ''s1'', hc_Writable = False\<rparr>),
          (''conn-1'', \<lparr>hc_ID = ''conn-1'', hc_SessionID = ''s1'', hc_Writable = True\<rparr>)],
       w_hub_sessions := [(''s1'', [''conn-1'', ''conn-host''])]\<rparr>"

text \<open>A third player connection as the \<^verbatim>\<open>$connect\<close> lambda registers it when the request
  carries no authorizer context: the user identity is the empty string.\<close>

definition noauth_world :: World where
  "noauth_world =
     active_world\<lparr>w_connections := w_connections active_world @
       [((''s1'', ''conn-3''),
         \<lparr>p_SessionID = ''s1'', p_ConnectionID = ''conn-3'', p_UserID = [],
          p_Nickname = [], p_Role = PlayerRolePlayer\<rparr>)]\<rparr>"

section \<open>Vocabulary of the properties\<close>




text \<open>The sample quiz with the other option marked correct in every question.\<close>

definition sample_quiz_other :: Quiz where
  "sample_quiz_other =
     sample_quiz\<lparr>quiz_Questions :=
       map (\<lambda>q. q\<lparr>q_CorrectOptionID := ''optB''\<rparr>) (quiz_Questions sample_quiz)\<rparr>"

text \<open>The leaderboards after the write phase of \<^verbatim>\<open>HandleSubmitAnswer\<close> has scored
  \<open>points\<close> for a player: one \<^verbatim>\<open>ZINCRBY\<close> when the points are positive and the call
  succeeds, nothing otherwise.\<close>

definition scored :: "World \<Rightarrow> string \<Rightarrow> string \<Rightarrow> int \<Rightarrow> (string \<times> (string \<times> int) list) list" where
  "scored w sessionID userID points =
     (if points > 0 \<and> \<not> fails w Redis_ZIncrBy
      then AList.update sessionID
             (AList.update userID
                ((case map_of (zset w sessionID) userID of None \<Rightarrow> 0 | Some s \<Rightarrow> s) + points)
                (zset w sessionID))
             (w_leaderboards w)
      else w_leaderboards w)"

text \<open>Two submissions of the first player for the first question, both correct, after
  5 and after 6 of its 20 seconds.\<close>

definition first_submission :: SubmitAnswerPayload where
  "first_submission =
     \<lparr>sa_QuestionID = ''q1'', sa_SelectedOptionID = ''optA'', sa_TimeTakenMs = 5000\<rparr>"

definition second_submission :: SubmitAnswerPayload where
  "second_submission =
     \<lparr>sa_QuestionID = ''q1'', sa_SelectedOptionID = ''optA'', sa_TimeTakenMs = 6000\<rparr>"

text \<open>The player record \<^verbatim>\<open>HandleJoinSession\<close> stores for a context without claims, and
  the sample session after two such joins, the host's start and the first player's
  first submission.\<close>

definition anonymous_player :: "string \<Rightarrow> string \<Rightarrow> string \<Rightarrow> Player" where
  "anonymous_player sessionID connectionID nickname =
     \<lparr>p_SessionID = sessionID, p_ConnectionID = connectionID, p_UserID = ''anonymous'',
      p_Nickname = nickname, p_Role = PlayerRolePlayer\<rparr>"

definition joined_once :: World where
  "joined_once = snd (HandleJoinSession None sample_world ''conn-1''
                        \<lparr>js_SessionID = ''s1'', js_Nickname = ''alice''\<rparr>)"

definition joined_twice :: World where
  "joined_twice = snd (HandleJoinSession None joined_once ''conn-2''
                         \<lparr>js_SessionID = ''s1'', js_Nickname = ''bob''\<rparr>)"

definition started :: World where
  "started = snd (HandleStartGame joined_twice ''conn-host'' ''s1'')"

definition answered :: World where
  "answered = snd (HandleSubmitAnswer started ''conn-1'' first_submission)"

(* PROPERTIES *)

section \<open>What the broadcaster leaves unchanged\<close>

text \<open>A broadcast appends its call to the log of broadcasts and may write to sockets;
  in production mode a failed send deletes the connection. It touches nothing else.\<close>

lemma Hub_SendToConnection_frame:
  "Hub_SendToConnection w c m = (e, w') \<Longrightarrow>
     w_broadcasts w' = w_broadcasts w \<and> w_sessions w' = w_sessions w \<and> w_quizzes w' = w_quizzes w
     \<and> w_connections w' = w_connections w \<and> w_answers w' = w_answers w
     \<and> w_leaderboards w' = w_leaderboards w \<and> w_nicknames w' = w_nicknames w
     \<and> w_failing w' = w_failing w \<and> w_local w' = w_local w
     \<and> w_hub_connections w' = w_hub_connections w \<and> w_hub_sessions w' = w_hub_sessions w"
  by (auto simp: Hub_SendToConnection_def split: option.splits if_splits)

lemma hub_broadcast_loop_frame:
  "hub_broadcast_loop w ids m l = (e, w') \<Longrightarrow>
     w_broadcasts w' = w_broadcasts w \<and> w_sessions w' = w_sessions w \<and> w_quizzes w' = w_quizzes w
     \<and> w_connections w' = w_connections w \<and> w_answers w' = w_answers w
     \<and> w_leaderboards w' = w_leaderboards w \<and> w_nicknames w' = w_nicknames w
     \<and> w_failing w' = w_failing w \<and> w_local w' = w_local w
     \<and> w_hub_connections w' = w_hub_connections w \<and> w_hub_sessions w' = w_hub_sessions w"
proof (induction ids arbitrary: w l)
  case Nil
  then show ?case by simp
next
  case (Cons c ids)
  obtain e1 w1 where s: "Hub_SendToConnection w c m = (e1, w1)" by (cases "Hub_SendToConnection w c m")
  from Hub_SendToConnection_frame[OF s] Cons.IH[of w1] Cons.prems s show ?case
    by (cases e1) auto
qed

lemma fanout_nonlocal: "\<not> w_local w \<Longrightarrow> fanout w sid conns m = w"
  by (induction conns) (auto simp: SendToConnection_def)

lemma fanout_frame:
  "w_broadcasts (fanout w sid conns m) = w_broadcasts w \<and> w_sessions (fanout w sid conns m) = w_sessions w
   \<and> w_quizzes (fanout w sid conns m) = w_quizzes w \<and> w_answers (fanout w sid conns m) = w_answers w
   \<and> w_leaderboards (fanout w sid conns m) = w_leaderboards w \<and> w_nicknames (fanout w sid conns m) = w_nicknames w
   \<and> w_failing (fanout w sid conns m) = w_failing w \<and> w_local (fanout w sid conns m) = w_local w"
proof (induction conns arbitrary: w)
  case Nil
  then show ?case by simp
next
  case (Cons c conns)
  obtain e1 w1 where s: "SendToConnection w (p_ConnectionID c) m = (e1, w1)"
    by (cases "SendToConnection w (p_ConnectionID c) m")
  have f: "w_broadcasts w1 = w_broadcasts w \<and> w_sessions w1 = w_sessions w \<and> w_quizzes w1 = w_quizzes w
     \<and> w_answers w1 = w_answers w
     \<and> w_leaderboards w1 = w_leaderboards w \<and> w_nicknames w1 = w_nicknames w
     \<and> w_failing w1 = w_failing w \<and> w_local w1 = w_local w"
    using s Hub_SendToConnection_frame[of w "p_ConnectionID c" m e1 w1]
    by (auto simp: SendToConnection_def split: if_splits)
  show ?case
    using Cons.IH[of w1] Cons.IH[of "snd (DeleteConnection w1 sid (p_ConnectionID c))"] s f
    by (cases e1) (auto simp: DeleteConnection_def)
qed

lemma BroadcastToSession_frame:
  "BroadcastToSession w sid m = (e, w') \<Longrightarrow>
     w_broadcasts w' = w_broadcasts w @ [(sid, m)] \<and> w_sessions w' = w_sessions w
     \<and> w_quizzes w' = w_quizzes w \<and> w_answers w' = w_answers w
     \<and> w_leaderboards w' = w_leaderboards w \<and> w_nicknames w' = w_nicknames w
     \<and> w_failing w' = w_failing w \<and> w_local w' = w_local w"
  using hub_broadcast_loop_frame[of "w\<lparr>w_broadcasts := w_broadcasts w @ [(sid, m)]\<rparr>" _ m None e w']
    fanout_frame[of "w\<lparr>w_broadcasts := w_broadcasts w @ [(sid, m)]\<rparr>" sid _ m]
  by (auto simp: BroadcastToSession_def Let_def Hub_BroadcastToSession_def GetConnectionsBySession_def fails_def
      split: if_splits option.splits sum.splits)

section \<open>Session state validation\<close>

text \<open>
  Claim C5: an action that arrives when the session's status does not admit it is
  rejected with a clean error; in particular NextQuestion on a session that is already
  FINISHED (stored question index -1) fails cleanly rather than crashing.

  The code does not do this. After the host has ended the game the session is stored
  as FINISHED with index -1; a further \<^verbatim>\<open>next_question\<close> of the host passes the role
  check, reads the session and the quiz and indexes the questions with -1: the handler
  panics (index out of range) instead of returning an error.
\<close>

theorem NextQuestion_on_finished_session_panics:
  "fst (HandleEndGame active_world ''conn-host'' ''s1'') = Ok ()
   \<and> map_of (w_sessions (snd (HandleEndGame active_world ''conn-host'' ''s1''))) ''s1''
       = Some (sample_session SessionStatusFinished (- 1))
   \<and> fst (HandleNextQuestion (snd (HandleEndGame active_world ''conn-host'' ''s1''))
            ''conn-host'' ''s1'') = Panic ''index out of range''
   \<and> HandleNextQuestion finished_world ''conn-host'' ''s1''
       = (Panic ''index out of range'', finished_world)"
  by code_simp

section \<open>Authorization errors\<close>

text \<open>
  Claim C8: a caller whose registry role is not HOST and who invokes a host-only action
  is rejected with an error that does not depend on whether the target session exists
  or on its status.

  \<^verbatim>\<open>HandleStartGame\<close> looks the session up and checks its status before it checks the
  caller's role. The same player connection gets three different errors for a session
  in the lobby, a session that does not exist and a session that has started; the
  world is unchanged in each case.
\<close>

theorem StartGame_error_reveals_session_state:
  "HandleStartGame sample_world ''conn-1'' ''s1''
     = (Err (Msg ''only the host can start the game''), sample_world)
   \<and> HandleStartGame sample_world ''conn-1'' ''s2''
     = (Err (Msg ''session not found''), sample_world)
   \<and> HandleStartGame active_world ''conn-1'' ''s1''
     = (Err (Msg ''game already started''), active_world)"
  by code_simp

section \<open>Broadcast failures\<close>

text \<open>
  Claim C6: a failed broadcast is never fatal to the action: BroadcastToSession does not
  return a failure when deliveries fail, and an action such as JoinSession whose
  mutations are committed reports success whatever the broadcast did.

  In local mode the hub returns the error of the last failed delivery, the broadcaster
  passes it on and \<^verbatim>\<open>HandleJoinSession\<close> returns it: here the join has registered the
  connection and initialised the score, the joining player's own socket has received
  the event, and the caller still gets the socket error of the host's dead connection.
\<close>

theorem JoinSession_fails_on_broadcast_error:
  "fst (Hub_BroadcastToSession hub_world ''s1''
          \<lparr>ws_Type = WSTypePlayerJoined,
           ws_Payload = PlayerJoined \<lparr>pj_Nickname = ''alice'', pj_PlayerCount = 3\<rparr>\<rparr>)
     = Some SocketError
   \<and> fst (HandleJoinSession None hub_world ''conn-1''
            \<lparr>js_SessionID = ''s1'', js_Nickname = ''alice''\<rparr>) = Err SocketError
   \<and> map_of (w_connections (snd (HandleJoinSession None hub_world ''conn-1''
            \<lparr>js_SessionID = ''s1'', js_Nickname = ''alice''\<rparr>))) (''s1'', ''conn-1'')
     = Some \<lparr>p_SessionID = ''s1'', p_ConnectionID = ''conn-1'', p_UserID = ''anonymous'',
             p_Nickname = ''alice'', p_Role = PlayerRolePlayer\<rparr>
   \<and> w_leaderboards (snd (HandleJoinSession None hub_world ''conn-1''
            \<lparr>js_SessionID = ''s1'', js_Nickname = ''alice''\<rparr>))
     = [(''s1'', [(''anonymous'', 0)])]
   \<and> w_delivered (snd (HandleJoinSession None hub_world ''conn-1''
            \<lparr>js_SessionID = ''s1'', js_Nickname = ''alice''\<rparr>))
     = [(''conn-1'', \<lparr>ws_Type = WSTypePlayerJoined,
           ws_Payload = PlayerJoined \<lparr>pj_Nickname = ''alice'', pj_PlayerCount = 3\<rparr>\<rparr>)]"
  by code_simp

section \<open>The leaderboard's top N\<close>

text \<open>
  Claim C9: topN returns entries in descending score order with 1-indexed ranks and
  never fails on a missing nickname: for a member without a nickname, also one whose
  identity is shorter than the truncation length, it substitutes the truncated
  identity and returns normally.

  The fallback \<^verbatim>\<open>userID[:8]\<close> panics for an identity of fewer than 8 bytes. A
  connection registered without an authorizer context has the empty identity; once it
  has scored (its answer is accepted and its member is created by the increment, with
  no nickname), \<^verbatim>\<open>GetTopN\<close> panics, and with it the host's next action.
\<close>

theorem GetTopN_panics_on_short_identity:
  "fst (HandleSubmitAnswer noauth_world ''conn-3''
          \<lparr>sa_QuestionID = ''q1'', sa_SelectedOptionID = ''optA'', sa_TimeTakenMs = 5000\<rparr>)
     = Ok ()
   \<and> GetTopN (snd (HandleSubmitAnswer noauth_world ''conn-3''
          \<lparr>sa_QuestionID = ''q1'', sa_SelectedOptionID = ''optA'', sa_TimeTakenMs = 5000\<rparr>))
        ''s1'' 10 = Panic ''slice bounds out of range [:8]''
   \<and> fst (HandleNextQuestion (snd (HandleSubmitAnswer noauth_world ''conn-3''
          \<lparr>sa_QuestionID = ''q1'', sa_SelectedOptionID = ''optA'', sa_TimeTakenMs = 5000\<rparr>))
        ''conn-host'' ''s1'') = Panic ''slice bounds out of range [:8]''"
  by code_simp

section \<open>The order of events at NextQuestion\<close>


lemma UpdateSessionStatus_None:
  "UpdateSessionStatus w sid st i = (None, w') \<Longrightarrow>
     w_broadcasts w' = w_broadcasts w \<and> w_quizzes w' = w_quizzes w
     \<and> w_leaderboards w' = w_leaderboards w \<and> w_nicknames w' = w_nicknames w
     \<and> w_failing w' = w_failing w \<and> w_answers w' = w_answers w \<and> w_connections w' = w_connections w
     \<and> map_of (w_sessions w') sid =
         Some (case map_of (w_sessions w) sid of
                 None \<Rightarrow> \<lparr>s_SessionID = sid, s_PIN = [], s_QuizID = [], s_HostUserID = [],
                           s_Status = st, s_CurrentQuestionIndex = i\<rparr>
               | Some s \<Rightarrow> s\<lparr>s_Status := st, s_CurrentQuestionIndex := i\<rparr>)"
  by (auto simp: UpdateSessionStatus_def update_conv' split: if_splits)

lemma UpdateSessionStatus_Some:
  "UpdateSessionStatus w sid st i = (Some e, w') \<Longrightarrow> w' = w"
  by (auto simp: UpdateSessionStatus_def split: if_splits)






section \<open>Redaction of the question event\<close>

lemma json_keys_marshalOption: "json_keys (marshalOption opt) = [''id'', ''text'']"
  by (simp add: marshalOption_def)

lemma json_keys_marshalOptions:
  "concat (map json_keys (map marshalOption opts)) = concat (map (\<lambda>_. [''id'', ''text'']) opts)"
  by (simp add: json_keys_marshalOption comp_def)

lemma json_keys_constant:
  "set (concat (map (\<lambda>_::QOption. [''id'', ''text'']) opts)) \<subseteq> {''id'', ''text''}"
  by (induction opts) simp_all

lemma json_keys_questionMessage:
  "json_keys (marshal (questionMessage quiz index)) =
     [''type'', ''payload'', ''questionIndex'', ''totalQuestions'', ''text'', ''options'']
     @ concat (map (\<lambda>_. [''id'', ''text'']) (q_Options (quiz_Questions quiz ! nat index)))
     @ [''timeLimitMs'', ''points'']"
  by (simp add: marshal_def questionMessage_def Let_def comp_def json_keys_marshalOption)

lemma correctOptionId_not_key:
  "''correctOptionId'' \<notin> set (json_keys (marshal (questionMessage quiz index)))"
proof -
  have "''correctOptionId'' \<notin> {''id'', ''text''}" by simp
  then have "''correctOptionId'' \<notin> set (concat (map (\<lambda>_::QOption. [''id'', ''text''])
                (q_Options (quiz_Questions quiz ! nat index))))"
    using json_keys_constant by blast
  then show ?thesis
    by (simp add: json_keys_questionMessage)
qed

lemma questionMessage_redacted:
  assumes "map (\<lambda>q. q\<lparr>q_CorrectOptionID := []\<rparr>) (quiz_Questions quiz1)
         = map (\<lambda>q. q\<lparr>q_CorrectOptionID := []\<rparr>) (quiz_Questions quiz2)"
    and "0 \<le> index" and "index < int (length (quiz_Questions quiz1))"
  shows "questionMessage quiz1 index = questionMessage quiz2 index"
proof -
  have len: "length (quiz_Questions quiz1) = length (quiz_Questions quiz2)"
    using assms(1) by (metis length_map)
  have "(quiz_Questions quiz1 ! nat index)\<lparr>q_CorrectOptionID := []\<rparr>
      = (quiz_Questions quiz2 ! nat index)\<lparr>q_CorrectOptionID := []\<rparr>"
    using assms len by (metis nat_less_iff nth_map)
  then have "q_Text (quiz_Questions quiz1 ! nat index) = q_Text (quiz_Questions quiz2 ! nat index)
     \<and> q_Options (quiz_Questions quiz1 ! nat index) = q_Options (quiz_Questions quiz2 ! nat index)
     \<and> q_TimeLimitSeconds (quiz_Questions quiz1 ! nat index) = q_TimeLimitSeconds (quiz_Questions quiz2 ! nat index)
     \<and> q_Points (quiz_Questions quiz1 ! nat index) = q_Points (quiz_Questions quiz2 ! nat index)"
    by (cases "quiz_Questions quiz1 ! nat index"; cases "quiz_Questions quiz2 ! nat index") simp
  then show ?thesis using len by (simp add: questionMessage_def Let_def)
qed

lemma Hub_SendToConnection_delivered:
  "Hub_SendToConnection w c m = (e, w') \<Longrightarrow>
     w_delivered w' = w_delivered w \<or> w_delivered w' = w_delivered w @ [(c, m)]"
  by (auto simp: Hub_SendToConnection_def split: option.splits if_splits)

lemma hub_broadcast_loop_delivered:
  "hub_broadcast_loop w ids m l = (e, w') \<Longrightarrow>
     \<exists>cs. w_delivered w' = w_delivered w @ map (\<lambda>c. (c, m)) cs"
proof (induction ids arbitrary: w l)
  case Nil
  then show ?case by simp
next
  case (Cons c ids)
  obtain e1 w1 where s: "Hub_SendToConnection w c m = (e1, w1)" by (cases "Hub_SendToConnection w c m")
  from Cons.prems s obtain l' where "hub_broadcast_loop w1 ids m l' = (e, w')"
    by (cases e1) auto
  from Cons.IH[OF this] obtain cs where cs: "w_delivered w' = w_delivered w1 @ map (\<lambda>c. (c, m)) cs"
    by blast
  from Hub_SendToConnection_delivered[OF s] show ?case
  proof
    assume "w_delivered w1 = w_delivered w"
    with cs show ?thesis by auto
  next
    assume "w_delivered w1 = w_delivered w @ [(c, m)]"
    with cs have "w_delivered w' = w_delivered w @ map (\<lambda>c. (c, m)) (c # cs)" by simp
    then show ?thesis by blast
  qed
qed

lemma BroadcastToSession_delivered:
  "BroadcastToSession w sid m = (e, w') \<Longrightarrow>
     \<exists>cs. w_delivered w' = w_delivered w @ map (\<lambda>c. (c, m)) cs"
  using hub_broadcast_loop_delivered[of "w\<lparr>w_broadcasts := w_broadcasts w @ [(sid, m)]\<rparr>" _ m None e w']
  by (auto simp: BroadcastToSession_def Let_def Hub_BroadcastToSession_def GetConnectionsBySession_def
      fanout_nonlocal split: if_splits option.splits sum.splits)

text \<open>
  Claim C4: an outbound question event (the payload broadcast by question dispatch at
  StartGame and NextQuestion) never contains the correct option identifier: its
  serialised form has no \<^verbatim>\<open>correctOptionId\<close> field, and the event is the same for
  two quizzes that differ only in which option is marked correct.

  For two quizzes whose questions agree once the correct option is blanked,
  \<^verbatim>\<open>sendQuestion\<close> returns the same result and leaves the same world; the message it
  builds has no member named \<^verbatim>\<open>correctOptionId\<close> at any depth; and that message is
  the only one it adds to the log of broadcasts and the only one it writes to a socket.
\<close>

theorem question_event_never_carries_correct_option:
  assumes same: "map (\<lambda>q. q\<lparr>q_CorrectOptionID := []\<rparr>) (quiz_Questions quiz1)
               = map (\<lambda>q. q\<lparr>q_CorrectOptionID := []\<rparr>) (quiz_Questions quiz2)"
    and run: "sendQuestion w sessionID quiz1 index = (r, w')"
  shows "sendQuestion w sessionID quiz2 index = (r, w')
       \<and> ''correctOptionId'' \<notin> set (json_keys (marshal (questionMessage quiz1 index)))
       \<and> (w' = w \<or> w_broadcasts w' = w_broadcasts w @ [(sessionID, questionMessage quiz1 index)])
       \<and> (\<exists>cs. w_delivered w' = w_delivered w
                 @ map (\<lambda>c. (c, questionMessage quiz1 index)) cs)"
proof -
  have len: "length (quiz_Questions quiz1) = length (quiz_Questions quiz2)"
    using same by (metis length_map)
  have keys: "''correctOptionId'' \<notin> set (json_keys (marshal (questionMessage quiz1 index)))"
    by (rule correctOptionId_not_key)
  show ?thesis
  proof (cases "0 \<le> index \<and> index < int (length (quiz_Questions quiz1))")
    case False
    with run len keys show ?thesis
      by (auto simp: sendQuestion_def)
  next
    case True
    then have eq: "questionMessage quiz1 index = questionMessage quiz2 index"
      using questionMessage_redacted[OF same] by simp
    obtain e2 w2 where b: "BroadcastToSession w sessionID (questionMessage quiz1 index) = (e2, w2)"
      by (cases "BroadcastToSession w sessionID (questionMessage quiz1 index)")
    have w2: "w2 = w'" using run True b by (cases e2) (auto simp: sendQuestion_def return_def)
    have "sendQuestion w sessionID quiz2 index = (r, w')"
      using run True len eq by (simp add: sendQuestion_def)
    moreover note keys
    moreover have "w_broadcasts w' = w_broadcasts w @ [(sessionID, questionMessage quiz1 index)]"
      using BroadcastToSession_frame[OF b] w2 by simp
    moreover have "\<exists>cs. w_delivered w' = w_delivered w @ map (\<lambda>c. (c, questionMessage quiz1 index)) cs"
      using BroadcastToSession_delivered[OF b] w2 by simp
    ultimately show ?thesis by blast
  qed
qed

theorem question_event_never_carries_correct_option_witness:
  "sendQuestion hub_world ''s1'' sample_quiz_other 0
     = sendQuestion hub_world ''s1'' sample_quiz 0
   \<and> fst (sendQuestion hub_world ''s1'' sample_quiz 0) = Err SocketError
   \<and> q_CorrectOptionID (quiz_Questions sample_quiz ! 0) = ''optA''
   \<and> q_CorrectOptionID (quiz_Questions sample_quiz_other ! 0) = ''optB''
   \<and> ''correctOptionId'' \<notin> set (json_keys (marshal (questionMessage sample_quiz 0)))
   \<and> w_delivered (snd (sendQuestion hub_world ''s1'' sample_quiz 0))
       = [(''conn-1'', questionMessage sample_quiz 0)]"
proof -
  have same: "map (\<lambda>q. q\<lparr>q_CorrectOptionID := []\<rparr>) (quiz_Questions sample_quiz)
            = map (\<lambda>q. q\<lparr>q_CorrectOptionID := []\<rparr>) (quiz_Questions sample_quiz_other)"
    by code_simp
  have run: "sendQuestion hub_world ''s1'' sample_quiz 0
     = (fst (sendQuestion hub_world ''s1'' sample_quiz 0), snd (sendQuestion hub_world ''s1'' sample_quiz 0))"
    by simp
  have r: "fst (sendQuestion hub_world ''s1'' sample_quiz 0) = Err SocketError"
    by code_simp
  have c: "q_CorrectOptionID (quiz_Questions sample_quiz ! 0) = ''optA''
         \<and> q_CorrectOptionID (quiz_Questions sample_quiz_other ! 0) = ''optB''"
    by code_simp
  have d: "w_delivered (snd (sendQuestion hub_world ''s1'' sample_quiz 0))
       = [(''conn-1'', questionMessage sample_quiz 0)]"
    by code_simp
  from question_event_never_carries_correct_option[OF same run] r c d show ?thesis
    by (simp add: prod_eq_iff)
qed

section \<open>Answer submission: reading, then writing\<close>



lemma update_absent: "map_of al k = None \<Longrightarrow> AList.update k v al = al @ [(k, v)]"
  by (induction al) (auto split: if_splits)



lemma filter_update_other:
  "snd k \<noteq> c \<Longrightarrow>
   filter (\<lambda>(k', p). snd k' = c) (AList.update k v al) = filter (\<lambda>(k', p). snd k' = c) al"
  by (induction al) auto



lemma filter_update_own:
  "(\<And>s' v'. ((s', c), v') \<in> set al \<Longrightarrow> s' = s) \<Longrightarrow>
   \<exists>rest. filter (\<lambda>(k', p). snd k' = c) (AList.update (s, c) v al) = ((s, c), v) # rest"
proof (induction al)
  case Nil
  then show ?case by simp
next
  case (Cons a al)
  obtain s' c' v' where a: "a = ((s', c'), v')" by (metis surj_pair)
  show ?case
  proof (cases "c' = c")
    case True
    then have "s' = s" using Cons.prems[of s' v'] a by simp
    with True a show ?thesis by simp
  next
    case False
    have "\<exists>rest. filter (\<lambda>(k', p). snd k' = c) (AList.update (s, c) v al) = ((s, c), v) # rest"
      by (rule Cons.IH) (use Cons.prems in auto)
    with False a show ?thesis by simp
  qed
qed



lemma submit_write_unfold:
  "submit_write w connectionID (conn, question, answer) =
     (case PutAnswer w answer of
           (Some err, w1) \<Rightarrow> (Err (Wrap ''failed to store answer'' err), w1)
         | (None, w1) \<Rightarrow>
             let w2 = (if a_PointsEarned answer > 0
                       then snd (IncrementScore w1 (p_SessionID conn) (p_UserID conn)
                                   (a_PointsEarned answer))
                       else w1);
                 rank = fst (GetPlayerRank w2 (p_SessionID conn) (p_UserID conn));
                 totalScore = fst (GetPlayerScore w2 (p_SessionID conn) (p_UserID conn))
             in return (SendToConnection w2 connectionID
                  \<lparr>ws_Type = WSTypeAnswerResult,
                   ws_Payload = AnswerResult
                     \<lparr>ar_IsCorrect = a_IsCorrect answer,
                      ar_PointsEarned = a_PointsEarned answer,
                      ar_TotalScore = totalScore,
                      ar_Rank = rank,
                      ar_CorrectOption = q_CorrectOptionID question\<rparr>\<rparr>))"
  by (simp add: submit_write_def)



lemma HandleSubmitAnswer_phases:
  "HandleSubmitAnswer w connectionID payload =
     (case submit_read w connectionID payload of
        Inl r \<Rightarrow> (r, w)
      | Inr pending \<Rightarrow> submit_write w connectionID pending)"
proof (cases "GetSessionByConnectionID w connectionID")
  case (Inl err)
  then show ?thesis by (simp add: HandleSubmitAnswer_def submit_read_def)
next
  case conn: (Inr conn)
  show ?thesis
  proof (cases "GetSession w (p_SessionID conn)")
    case (Inl err)
    with conn show ?thesis by (simp add: HandleSubmitAnswer_def submit_read_def)
  next
    case sess: (Inr sessionOpt)
    show ?thesis
    proof (cases sessionOpt)
      case None
      with conn sess show ?thesis by (simp add: HandleSubmitAnswer_def submit_read_def)
    next
      case (Some session)
      note sess = sess[unfolded Some]
      show ?thesis
      proof (cases "s_Status session = SessionStatusActive")
        case False
        with conn sess show ?thesis by (simp add: HandleSubmitAnswer_def submit_read_def)
      next
        case active: True
        show ?thesis
        proof (cases "GetAnswer w (p_SessionID conn) (p_UserID conn) (sa_QuestionID payload)")
          case (Inl err)
          with conn sess active show ?thesis by (simp add: HandleSubmitAnswer_def submit_read_def)
        next
          case ans: (Inr existing)
          show ?thesis
          proof (cases existing)
            case (Some a)
            with conn sess active ans show ?thesis
              by (simp add: HandleSubmitAnswer_def submit_read_def)
          next
            case None
            note ans = ans[unfolded None]
            show ?thesis
            proof (cases "GetQuiz w (s_QuizID session)")
              case (Inl err)
              with conn sess active ans show ?thesis
                by (simp add: HandleSubmitAnswer_def submit_read_def)
            next
              case quiz: (Inr quizOpt)
              show ?thesis
              proof (cases quizOpt)
                case None
                with conn sess active ans quiz show ?thesis
                  by (simp add: HandleSubmitAnswer_def submit_read_def)
              next
                case (Some qz)
                note quiz = quiz[unfolded Some]
                show ?thesis
                proof (cases "find (\<lambda>q. q_QuestionID q = sa_QuestionID payload) (quiz_Questions qz)")
                  case None
                  with conn sess active ans quiz show ?thesis
                    by (simp add: HandleSubmitAnswer_def submit_read_def)
                next
                  case (Some question)
                  with conn sess active ans quiz show ?thesis
                    by (simp add: HandleSubmitAnswer_def submit_read_def submit_write_unfold Let_def
                        split: prod.splits option.splits)
                qed
              qed
            qed
          qed
        qed
      qed
    qed
  qed
qed



lemma submit_read_Inl: "submit_read w c p = Inl r \<Longrightarrow> r \<noteq> Ok ()"
  by (auto simp: submit_read_def Let_def split: sum.splits option.splits if_splits)



lemma submit_read_Inr:
  assumes "submit_read w c p = Inr (conn, question, answer)"
  shows "GetSessionByConnectionID w c = Inr conn"
    and "\<exists>session. GetSession w (p_SessionID conn) = Inr (Some session)
           \<and> s_Status session = SessionStatusActive"
    and "GetAnswer w (p_SessionID conn) (p_UserID conn) (sa_QuestionID p) = Inr None"
    and "a_SessionID answer = p_SessionID conn"
    and "a_UserIDQuestionID answer = p_UserID conn @ ''#'' @ sa_QuestionID p"
    and "a_SelectedOptionID answer = sa_SelectedOptionID p"
    and "a_TimeTakenMs answer = sa_TimeTakenMs p"
  using assms
  by (auto simp: submit_read_def Let_def split: sum.splits option.splits if_splits)



lemma SendToConnection_frame:
  "SendToConnection w c m = (e, w') \<Longrightarrow>
     w_broadcasts w' = w_broadcasts w \<and> w_sessions w' = w_sessions w \<and> w_quizzes w' = w_quizzes w
     \<and> w_connections w' = w_connections w \<and> w_answers w' = w_answers w
     \<and> w_leaderboards w' = w_leaderboards w \<and> w_nicknames w' = w_nicknames w
     \<and> w_failing w' = w_failing w \<and> w_local w' = w_local w"
  using Hub_SendToConnection_frame[of w c m e w']
  by (auto simp: SendToConnection_def split: if_splits)



lemma submit_write_effect:
  assumes "submit_write w c (conn, question, answer) = (r, w')"
  shows "(fails w DDB_PutAnswer \<and> w' = w \<and> r = Err (Wrap ''failed to store answer'' StoreError))
       \<or> (\<not> fails w DDB_PutAnswer
           \<and> w_answers w' = AList.update (a_SessionID answer, a_UserIDQuestionID answer) answer (w_answers w)
           \<and> w_leaderboards w' = scored w (p_SessionID conn) (p_UserID conn) (a_PointsEarned answer)
           \<and> w_connections w' = w_connections w \<and> w_sessions w' = w_sessions w
           \<and> w_quizzes w' = w_quizzes w \<and> w_failing w' = w_failing w
           \<and> w_nicknames w' = w_nicknames w \<and> w_broadcasts w' = w_broadcasts w
           \<and> r \<noteq> Err (Wrap ''failed to store answer'' StoreError))"
proof (cases "fails w DDB_PutAnswer")
  case True
  with assms show ?thesis by (simp add: submit_write_unfold PutAnswer_def)
next
  case False
  let ?w1 = "w\<lparr>w_answers := AList.update (a_SessionID answer, a_UserIDQuestionID answer) answer (w_answers w)\<rparr>"
  let ?w2 = "if a_PointsEarned answer > 0
             then snd (IncrementScore ?w1 (p_SessionID conn) (p_UserID conn) (a_PointsEarned answer))
             else ?w1"
  have w2: "w_answers ?w2 = w_answers ?w1 \<and> w_connections ?w2 = w_connections w
      \<and> w_sessions ?w2 = w_sessions w \<and> w_quizzes ?w2 = w_quizzes w \<and> w_failing ?w2 = w_failing w
      \<and> w_nicknames ?w2 = w_nicknames w \<and> w_broadcasts ?w2 = w_broadcasts w
      \<and> w_leaderboards ?w2 = scored w (p_SessionID conn) (p_UserID conn) (a_PointsEarned answer)"
    by (simp add: IncrementScore_def scored_def fails_def zset_def)
  let ?m = "\<lparr>ws_Type = WSTypeAnswerResult,
                   ws_Payload = AnswerResult
                     \<lparr>ar_IsCorrect = a_IsCorrect answer,
                      ar_PointsEarned = a_PointsEarned answer,
                      ar_TotalScore = fst (GetPlayerScore ?w2 (p_SessionID conn) (p_UserID conn)),
                      ar_Rank = fst (GetPlayerRank ?w2 (p_SessionID conn) (p_UserID conn)),
                      ar_CorrectOption = q_CorrectOptionID question\<rparr>\<rparr>"
  have eq: "submit_write w c (conn, question, answer) = return (SendToConnection ?w2 c ?m)"
    using False by (simp add: submit_write_unfold PutAnswer_def Let_def)
  obtain e w3 where send: "SendToConnection ?w2 c ?m = (e, w3)"
    by (cases "SendToConnection ?w2 c ?m")
  have w3: "w3 = w'" and re: "r = (case e of None \<Rightarrow> Ok () | Some err \<Rightarrow> Err err)"
    using assms eq send by (auto simp: return_def split: option.splits)
  have "e \<noteq> Some (Wrap ''failed to store answer'' StoreError)"
    using send
    by (auto simp: SendToConnection_def Hub_SendToConnection_def split: option.splits if_splits)
  then have r: "r \<noteq> Err (Wrap ''failed to store answer'' StoreError)"
    using re by (auto split: option.splits)
  from SendToConnection_frame[OF send] w2 False r w3 show ?thesis
    by simp
qed



lemma GetSessionByConnectionID_cong:
  "w_connections w' = w_connections w \<Longrightarrow> w_failing w' = w_failing w \<Longrightarrow>
   GetSessionByConnectionID w' c = GetSessionByConnectionID w c"
  by (simp add: GetSessionByConnectionID_def fails_def)



lemma GetSession_cong:
  "w_sessions w' = w_sessions w \<Longrightarrow> w_failing w' = w_failing w \<Longrightarrow>
   GetSession w' s = GetSession w s"
  by (simp add: GetSession_def fails_def)



lemma stored_answer_rejected:
  assumes conn: "GetSessionByConnectionID w c = Inr conn"
    and stored: "map_of (w_answers w) (p_SessionID conn, p_UserID conn @ ''#'' @ sa_QuestionID p) = Some a"
  shows "\<exists>e. HandleSubmitAnswer w c p = (Err e, w)"
    and "GetSession w (p_SessionID conn) = Inr (Some session) \<Longrightarrow>
         s_Status session = SessionStatusActive \<Longrightarrow> \<not> fails w DDB_GetAnswer \<Longrightarrow>
         HandleSubmitAnswer w c p = (Err (Msg ''already answered this question''), w)"
proof -
  show "\<exists>e. HandleSubmitAnswer w c p = (Err e, w)"
    using conn stored
    by (cases "GetSession w (p_SessionID conn)")
       (auto simp: HandleSubmitAnswer_def GetAnswer_def split: option.splits)
  show "GetSession w (p_SessionID conn) = Inr (Some session) \<Longrightarrow>
         s_Status session = SessionStatusActive \<Longrightarrow> \<not> fails w DDB_GetAnswer \<Longrightarrow>
         HandleSubmitAnswer w c p = (Err (Msg ''already answered this question''), w)"
    using conn stored by (simp add: HandleSubmitAnswer_def GetAnswer_def)
qed



lemma accepted_answer_stored:
  assumes first: "HandleSubmitAnswer w c p = (Ok (), w1)"
  shows "\<exists>conn session question a.
           GetSessionByConnectionID w c = Inr conn
         \<and> GetSession w (p_SessionID conn) = Inr (Some session)
         \<and> s_Status session = SessionStatusActive
         \<and> \<not> fails w DDB_GetAnswer
         \<and> map_of (w_answers w) (p_SessionID conn, p_UserID conn @ ''#'' @ sa_QuestionID p) = None
         \<and> a_SelectedOptionID a = sa_SelectedOptionID p
         \<and> a_TimeTakenMs a = sa_TimeTakenMs p
         \<and> w_answers w1 = w_answers w @ [((p_SessionID conn, p_UserID conn @ ''#'' @ sa_QuestionID p), a)]
         \<and> w_leaderboards w1 = scored w (p_SessionID conn) (p_UserID conn) (a_PointsEarned a)
         \<and> w_connections w1 = w_connections w \<and> w_sessions w1 = w_sessions w
         \<and> w_quizzes w1 = w_quizzes w \<and> w_failing w1 = w_failing w"
proof -
  obtain conn question a where rd: "submit_read w c p = Inr (conn, question, a)"
    and wr: "submit_write w c (conn, question, a) = (Ok (), w1)"
    using first submit_read_Inl[of w c p]
    by (cases "submit_read w c p") (auto simp: HandleSubmitAnswer_phases)
  note r = submit_read_Inr[OF rd]
  from r(2) obtain session where sess: "GetSession w (p_SessionID conn) = Inr (Some session)"
    "s_Status session = SessionStatusActive" by blast
  from r(3) have ga: "\<not> fails w DDB_GetAnswer"
    "map_of (w_answers w) (p_SessionID conn, p_UserID conn @ ''#'' @ sa_QuestionID p) = None"
    by (auto simp: GetAnswer_def split: if_splits)
  from submit_write_effect[OF wr] r(4,5)
  have eff: "w_answers w1 = AList.update (p_SessionID conn, p_UserID conn @ ''#'' @ sa_QuestionID p) a (w_answers w)"
    "w_leaderboards w1 = scored w (p_SessionID conn) (p_UserID conn) (a_PointsEarned a)"
    "w_connections w1 = w_connections w" "w_sessions w1 = w_sessions w"
    "w_quizzes w1 = w_quizzes w" "w_failing w1 = w_failing w"
    by auto
  from eff(1) ga(2)
  have "w_answers w1 = w_answers w @ [((p_SessionID conn, p_UserID conn @ ''#'' @ sa_QuestionID p), a)]"
    by (simp add: update_absent)
  with r(1,6,7) sess ga eff show ?thesis by blast
qed



lemma second_submission_rejected:
  assumes first: "HandleSubmitAnswer w c1 p1 = (Ok (), w1)"
    and conn1: "GetSessionByConnectionID w c1 = Inr conn1"
    and conn2: "GetSessionByConnectionID w c2 = Inr conn2"
    and same: "p_SessionID conn2 = p_SessionID conn1" "p_UserID conn2 = p_UserID conn1"
      "sa_QuestionID p2 = sa_QuestionID p1"
  shows "HandleSubmitAnswer w1 c2 p2 = (Err (Msg ''already answered this question''), w1)"
proof -
  from accepted_answer_stored[OF first] conn1 obtain session a where
    sess: "GetSession w (p_SessionID conn1) = Inr (Some session)" "s_Status session = SessionStatusActive"
    and ga: "\<not> fails w DDB_GetAnswer"
    and st: "w_answers w1 = w_answers w @ [((p_SessionID conn1, p_UserID conn1 @ ''#'' @ sa_QuestionID p1), a)]"
      "map_of (w_answers w) (p_SessionID conn1, p_UserID conn1 @ ''#'' @ sa_QuestionID p1) = None"
    and fr: "w_connections w1 = w_connections w" "w_sessions w1 = w_sessions w" "w_failing w1 = w_failing w"
    by auto
  have c2: "GetSessionByConnectionID w1 c2 = Inr conn2"
    using conn2 fr by (simp add: GetSessionByConnectionID_cong[of w1 w])
  have s2: "GetSession w1 (p_SessionID conn2) = Inr (Some session)"
    using sess fr same by (simp add: GetSession_cong[of w1 w])
  have g2: "\<not> fails w1 DDB_GetAnswer" using ga fr by (simp add: fails_def)
  have stored: "map_of (w_answers w1) (p_SessionID conn2, p_UserID conn2 @ ''#'' @ sa_QuestionID p2) = Some a"
    using st same by (simp add: map_add_def)
  from stored_answer_rejected(2)[OF c2 stored s2 sess(2) g2] show ?thesis .
qed

section \<open>At most one answer per player and question\<close>

text \<open>
  Claim C2: at most one Answer exists per session, player and question: a SubmitAnswer
  for which an Answer is already stored is rejected as already answered, the stored
  Answer is not overwritten and no score increment is performed; two SubmitAnswer calls
  for the same session, player and question result in exactly one stored Answer and
  exactly one score increment, even when they are triggered simultaneously.

  The claim fails for simultaneous calls. \<^verbatim>\<open>HandleSubmitAnswer\<close> checks for an existing
  answer with a read and stores with an unconditional \<^verbatim>\<open>PutItem\<close>
  (\<open>HandleSubmitAnswer_phases\<close>); when both calls read before either writes, both are
  accepted, the second answer replaces the first and the score is incremented twice
  (1375 + 1350 points here).
\<close>

theorem concurrent_submissions_both_accepted:
  "(case (submit_read active_world ''conn-1'' first_submission,
          submit_read active_world ''conn-1'' second_submission) of
      (Inr pending1, Inr pending2) \<Rightarrow>
        (case submit_write active_world ''conn-1'' pending1 of
           (r1, w1) \<Rightarrow>
             (case submit_write w1 ''conn-1'' pending2 of
                (r2, w2) \<Rightarrow>
                  r1 = Ok () \<and> r2 = Ok ()
                  \<and> map (\<lambda>(k, a). (k, a_TimeTakenMs a, a_PointsEarned a)) (w_answers w1)
                      = [((''s1'', ''anon-1a2b3c4d#q1''), 5000, 1375)]
                  \<and> map (\<lambda>(k, a). (k, a_TimeTakenMs a, a_PointsEarned a)) (w_answers w2)
                      = [((''s1'', ''anon-1a2b3c4d#q1''), 6000, 1350)]
                  \<and> w_leaderboards w1 = [(''s1'', [(''anon-1a2b3c4d'', 1375)])]
                  \<and> w_leaderboards w2 = [(''s1'', [(''anon-1a2b3c4d'', 2725)])]))
    | _ \<Rightarrow> False)"
  by code_simp

text \<open>
  Claim C2 as amended, for calls processed one after the other: a call that finds an
  Answer stored under its session, player and question returns an error and leaves the
  world as it was (the error is "already answered this question" when the session is
  active and the read of the answers table succeeds); and after an accepted call, which
  appends exactly one Answer under a key that held none and increments the score at
  most once, a second call for the same session, player and question is rejected as
  already answered and changes nothing.
\<close>

theorem duplicate_answer_rejected_in_sequence:
  "(GetSessionByConnectionID v c = Inr conn
    \<and> map_of (w_answers v) (p_SessionID conn, p_UserID conn @ ''#'' @ sa_QuestionID p) = Some a
    \<longrightarrow> (\<exists>e. HandleSubmitAnswer v c p = (Err e, v))
      \<and> (\<forall>session. GetSession v (p_SessionID conn) = Inr (Some session)
            \<and> s_Status session = SessionStatusActive \<and> \<not> fails v DDB_GetAnswer
            \<longrightarrow> HandleSubmitAnswer v c p = (Err (Msg ''already answered this question''), v)))
   \<and> (HandleSubmitAnswer w c1 p1 = (Ok (), w1)
      \<and> GetSessionByConnectionID w c1 = Inr conn1
      \<and> GetSessionByConnectionID w c2 = Inr conn2
      \<and> p_SessionID conn2 = p_SessionID conn1 \<and> p_UserID conn2 = p_UserID conn1
      \<and> sa_QuestionID p2 = sa_QuestionID p1
    \<longrightarrow> (\<exists>a1. map_of (w_answers w)
                  (p_SessionID conn1, p_UserID conn1 @ ''#'' @ sa_QuestionID p1) = None
             \<and> w_answers w1 = w_answers w
                  @ [((p_SessionID conn1, p_UserID conn1 @ ''#'' @ sa_QuestionID p1), a1)]
             \<and> a_SelectedOptionID a1 = sa_SelectedOptionID p1
             \<and> a_TimeTakenMs a1 = sa_TimeTakenMs p1
             \<and> w_leaderboards w1
                  = scored w (p_SessionID conn1) (p_UserID conn1) (a_PointsEarned a1))
      \<and> HandleSubmitAnswer w1 c2 p2 = (Err (Msg ''already answered this question''), w1))"
proof (intro conjI impI)
  assume h: "GetSessionByConnectionID v c = Inr conn
    \<and> map_of (w_answers v) (p_SessionID conn, p_UserID conn @ ''#'' @ sa_QuestionID p) = Some a"
  then show "\<exists>e. HandleSubmitAnswer v c p = (Err e, v)"
    using stored_answer_rejected(1) by blast
  from h show "\<forall>session. GetSession v (p_SessionID conn) = Inr (Some session)
            \<and> s_Status session = SessionStatusActive \<and> \<not> fails v DDB_GetAnswer
            \<longrightarrow> HandleSubmitAnswer v c p = (Err (Msg ''already answered this question''), v)"
    using stored_answer_rejected(2) by blast
next
  assume h: "HandleSubmitAnswer w c1 p1 = (Ok (), w1)
      \<and> GetSessionByConnectionID w c1 = Inr conn1
      \<and> GetSessionByConnectionID w c2 = Inr conn2
      \<and> p_SessionID conn2 = p_SessionID conn1 \<and> p_UserID conn2 = p_UserID conn1
      \<and> sa_QuestionID p2 = sa_QuestionID p1"
  from accepted_answer_stored[of w c1 p1 w1] h
  show "\<exists>a1. map_of (w_answers w)
                  (p_SessionID conn1, p_UserID conn1 @ ''#'' @ sa_QuestionID p1) = None
             \<and> w_answers w1 = w_answers w
                  @ [((p_SessionID conn1, p_UserID conn1 @ ''#'' @ sa_QuestionID p1), a1)]
             \<and> a_SelectedOptionID a1 = sa_SelectedOptionID p1
             \<and> a_TimeTakenMs a1 = sa_TimeTakenMs p1
             \<and> w_leaderboards w1
                  = scored w (p_SessionID conn1) (p_UserID conn1) (a_PointsEarned a1)"
    by auto
  from h show "HandleSubmitAnswer w1 c2 p2 = (Err (Msg ''already answered this question''), w1)"
    using second_submission_rejected[of w c1 p1 w1 conn1 c2 conn2 p2] by blast
qed

theorem duplicate_answer_rejected_in_sequence_witness:
  "HandleSubmitAnswer active_world ''conn-1'' first_submission
     = (Ok (), snd (HandleSubmitAnswer active_world ''conn-1'' first_submission))
   \<and> HandleSubmitAnswer (snd (HandleSubmitAnswer active_world ''conn-1'' first_submission))
        ''conn-1'' second_submission
     = (Err (Msg ''already answered this question''),
        snd (HandleSubmitAnswer active_world ''conn-1'' first_submission))
   \<and> w_leaderboards (snd (HandleSubmitAnswer active_world ''conn-1'' first_submission))
     = [(''s1'', [(''anon-1a2b3c4d'', 1375)])]"
proof -
  let ?w1 = "snd (HandleSubmitAnswer active_world ''conn-1'' first_submission)"
  let ?conn = "\<lparr>p_SessionID = ''s1'', p_ConnectionID = ''conn-1'', p_UserID = ''anon-1a2b3c4d'',
                 p_Nickname = [], p_Role = PlayerRolePlayer\<rparr>"
  have "fst (HandleSubmitAnswer active_world ''conn-1'' first_submission) = Ok ()"
    by code_simp
  then have first: "HandleSubmitAnswer active_world ''conn-1'' first_submission = (Ok (), ?w1)"
    by (metis prod.collapse)
  have conn: "GetSessionByConnectionID active_world ''conn-1'' = Inr ?conn"
    by code_simp
  have q: "sa_QuestionID second_submission = sa_QuestionID first_submission"
    by code_simp
  have l: "w_leaderboards ?w1 = [(''s1'', [(''anon-1a2b3c4d'', 1375)])]"
    by code_simp
  have conn1: "GetSessionByConnectionID ?w1 ''conn-1'' = Inr ?conn"
    by code_simp
  have stored: "map_of (w_answers ?w1)
      (p_SessionID ?conn, p_UserID ?conn @ ''#'' @ sa_QuestionID second_submission)
      = Some (snd (hd (w_answers ?w1)))"
    by code_simp
  from duplicate_answer_rejected_in_sequence[where v = ?w1 and c = "''conn-1''" and conn = ?conn
      and p = second_submission and a = "snd (hd (w_answers ?w1))"
      and w = active_world and ?c1.0 = "''conn-1''" and ?p1.0 = first_submission and ?w1.0 = ?w1
      and ?conn1.0 = ?conn and ?c2.0 = "''conn-1''" and ?conn2.0 = ?conn
      and ?p2.0 = second_submission]
    first conn conn1 stored q l
  show ?thesis by simp
qed

section \<open>Session status transitions\<close>

lemma BroadcastToSession_connections:
  "BroadcastToSession w sid m = (e, w') \<Longrightarrow> w_connections w' = w_connections w"
  using hub_broadcast_loop_frame[of "w\<lparr>w_broadcasts := w_broadcasts w @ [(sid, m)]\<rparr>" _ m None e w']
  by (auto simp: BroadcastToSession_def Let_def Hub_BroadcastToSession_def GetConnectionsBySession_def
      fanout_nonlocal split: if_splits option.splits sum.splits)

lemma sendQuestion_frame:
  assumes "sendQuestion w sid quiz i = (r, w')"
  shows "w_connections w' = w_connections w \<and> w_sessions w' = w_sessions w
       \<and> w_answers w' = w_answers w \<and> w_failing w' = w_failing w \<and> w_quizzes w' = w_quizzes w
       \<and> w_leaderboards w' = w_leaderboards w \<and> w_nicknames w' = w_nicknames w"
proof (cases "0 \<le> i \<and> i < int (length (quiz_Questions quiz))")
  case False
  with assms show ?thesis by (auto simp: sendQuestion_def)
next
  case True
  obtain e2 w2 where b: "BroadcastToSession w sid (questionMessage quiz i) = (e2, w2)"
    by (cases "BroadcastToSession w sid (questionMessage quiz i)")
  from BroadcastToSession_frame[OF b] BroadcastToSession_connections[OF b] assms True b show ?thesis
    by (cases e2) (auto simp: sendQuestion_def return_def)
qed

lemma HandleStartGame_effect:
  assumes run: "HandleStartGame w c sid = (r, w')"
  shows "w_connections w' = w_connections w \<and> w_answers w' = w_answers w
       \<and> w_failing w' = w_failing w \<and> w_quizzes w' = w_quizzes w
       \<and> w_leaderboards w' = w_leaderboards w \<and> w_nicknames w' = w_nicknames w"
    and "r = Ok () \<Longrightarrow>
         \<exists>session. map_of (w_sessions w) sid = Some session
           \<and> s_Status session = SessionStatusLobby
           \<and> \<not> fails w DDB_GetSession
           \<and> map_of (w_sessions w') sid
               = Some (session\<lparr>s_Status := SessionStatusActive, s_CurrentQuestionIndex := 0\<rparr>)"
proof -
  obtain e1 w1 where u: "UpdateSessionStatus w sid SessionStatusActive 0 = (e1, w1)"
    by (cases "UpdateSessionStatus w sid SessionStatusActive 0")
  have u': "e1 \<noteq> None \<Longrightarrow> w1 = w"
    using UpdateSessionStatus_Some[of w sid SessionStatusActive 0 _ w1] u by auto
  consider (early) "w' = w" "r \<noteq> Ok ()"
    | (go) session quiz where
        "GetSession w sid = Inr (Some session)" "s_Status session = SessionStatusLobby"
        "e1 = None"
        "(case BroadcastToSession w1 sid
                     \<lparr>ws_Type = WSTypeGameStarted,
                      ws_Payload = GameStarted (int (length (quiz_Questions quiz)))\<rparr> of
                     (Some err, w2) \<Rightarrow> (Err err, w2)
                   | (None, w2) \<Rightarrow> sendQuestion w2 sid quiz 0) = (r, w')"
    using run u u'
    by (cases e1)
       (auto simp: HandleStartGame_def split: sum.splits option.splits if_splits)
  then have "(w_connections w' = w_connections w \<and> w_answers w' = w_answers w
       \<and> w_failing w' = w_failing w \<and> w_quizzes w' = w_quizzes w
       \<and> w_leaderboards w' = w_leaderboards w \<and> w_nicknames w' = w_nicknames w)
     \<and> (r = Ok () \<longrightarrow>
         (\<exists>session. map_of (w_sessions w) sid = Some session
           \<and> s_Status session = SessionStatusLobby
           \<and> \<not> fails w DDB_GetSession
           \<and> map_of (w_sessions w') sid
               = Some (session\<lparr>s_Status := SessionStatusActive, s_CurrentQuestionIndex := 0\<rparr>)))"
  proof cases
    case early
    then show ?thesis by simp
  next
    case go
    note uf = UpdateSessionStatus_None[OF u[unfolded go(3)]]
    let ?m = "\<lparr>ws_Type = WSTypeGameStarted,
               ws_Payload = GameStarted (int (length (quiz_Questions quiz)))\<rparr>"
    obtain e2 w2 where b: "BroadcastToSession w1 sid ?m = (e2, w2)"
      by (cases "BroadcastToSession w1 sid ?m")
    note bf = BroadcastToSession_frame[OF b] BroadcastToSession_connections[OF b]
    have s: "map_of (w_sessions w) sid = Some session" "\<not> fails w DDB_GetSession"
      using go(1) by (auto simp: GetSession_def split: if_splits)
    show ?thesis
    proof (cases e2)
      case (Some err)
      with go(4) u b have "r = Err err" "w' = w2" by auto
      with uf bf show ?thesis by simp
    next
      case None
      with go(4) u b have sq: "sendQuestion w2 sid quiz 0 = (r, w')" by auto
      from sendQuestion_frame[OF sq] uf bf s go(2) show ?thesis by simp
    qed
  qed
  then show "w_connections w' = w_connections w \<and> w_answers w' = w_answers w
       \<and> w_failing w' = w_failing w \<and> w_quizzes w' = w_quizzes w
       \<and> w_leaderboards w' = w_leaderboards w \<and> w_nicknames w' = w_nicknames w"
    and "r = Ok () \<Longrightarrow>
         \<exists>session. map_of (w_sessions w) sid = Some session
           \<and> s_Status session = SessionStatusLobby
           \<and> \<not> fails w DDB_GetSession
           \<and> map_of (w_sessions w') sid
               = Some (session\<lparr>s_Status := SessionStatusActive, s_CurrentQuestionIndex := 0\<rparr>)"
    by blast+
qed




section \<open>Joining without authentication claims\<close>

lemma HandleJoinSession_anonymous:
  assumes run: "HandleJoinSession None w c p = (Ok (), w')"
  shows "w_connections w' = AList.update (js_SessionID p, c)
            (anonymous_player (js_SessionID p) c (js_Nickname p)) (w_connections w)"
    and "w_failing w' = w_failing w"
    and "w_leaderboards w' =
           (if fails w Redis_ZAdd then w_leaderboards w
            else AList.update (js_SessionID p)
                   (AList.update ''anonymous'' 0 (zset w (js_SessionID p))) (w_leaderboards w))"
    and "w_nicknames w' =
           (if fails w Redis_HSet then w_nicknames w
            else AList.update (js_SessionID p)
                   (AList.update ''anonymous'' (js_Nickname p) (nickname_hash w (js_SessionID p)))
                   (w_nicknames w))"
proof -
  let ?sid = "js_SessionID p"
  let ?player = "anonymous_player ?sid c (js_Nickname p)"
  let ?w1 = "w\<lparr>w_connections := AList.update (?sid, c) ?player (w_connections w)\<rparr>"
  let ?w2 = "snd (UpsertScore ?w1 ?sid ''anonymous'' 0)"
  let ?w3 = "snd (SetNickname ?w2 ?sid ''anonymous'' (js_Nickname p))"
  obtain count where
    put: "\<not> fails w DDB_PutConnection"
    and b: "return (BroadcastToSession ?w3 ?sid
              \<lparr>ws_Type = WSTypePlayerJoined,
               ws_Payload = PlayerJoined \<lparr>pj_Nickname = js_Nickname p, pj_PlayerCount = count + 1\<rparr>\<rparr>)
            = (Ok (), w')"
    using run
    by (cases "fails w DDB_PutConnection")
       (auto simp: HandleJoinSession_def getClaimsFromContext_def PutConnection_def Let_def
          anonymous_player_def
          split: sum.splits option.splits if_splits)
  let ?m = "\<lparr>ws_Type = WSTypePlayerJoined,
               ws_Payload = PlayerJoined \<lparr>pj_Nickname = js_Nickname p, pj_PlayerCount = count + 1\<rparr>\<rparr>"
  obtain e w4 where bb: "BroadcastToSession ?w3 ?sid ?m = (e, w4)"
    by (cases "BroadcastToSession ?w3 ?sid ?m")
  with b have w4: "w4 = w'" by (auto simp: return_def split: option.splits)
  note f = BroadcastToSession_frame[OF bb] BroadcastToSession_connections[OF bb]
  have w3: "w_connections ?w3 = AList.update (?sid, c) ?player (w_connections w)"
    "w_failing ?w3 = w_failing w"
    "w_leaderboards ?w3 = (if fails w Redis_ZAdd then w_leaderboards w
            else AList.update ?sid (AList.update ''anonymous'' 0 (zset w ?sid)) (w_leaderboards w))"
    "w_nicknames ?w3 = (if fails w Redis_HSet then w_nicknames w
            else AList.update ?sid
                   (AList.update ''anonymous'' (js_Nickname p) (nickname_hash w ?sid))
                   (w_nicknames w))"
    by (simp_all add: UpsertScore_def SetNickname_def fails_def zset_def nickname_hash_def)
  from f w3 w4 show "w_connections w' = AList.update (js_SessionID p, c)
            (anonymous_player (js_SessionID p) c (js_Nickname p)) (w_connections w)"
    and "w_failing w' = w_failing w"
    and "w_leaderboards w' =
           (if fails w Redis_ZAdd then w_leaderboards w
            else AList.update (js_SessionID p)
                   (AList.update ''anonymous'' 0 (zset w (js_SessionID p))) (w_leaderboards w))"
    and "w_nicknames w' =
           (if fails w Redis_HSet then w_nicknames w
            else AList.update (js_SessionID p)
                   (AList.update ''anonymous'' (js_Nickname p) (nickname_hash w (js_SessionID p)))
                   (w_nicknames w))"
    by simp_all
qed

lemma set_update_subset: "set (AList.update k v al) \<subseteq> insert (k, v) (set al)"
  by (induction al) auto

lemma keys_update: "fst ` set (AList.update k v al) = insert k (fst ` set al)"
  by (induction al) auto

lemma first_row_after_join:
  assumes rows: "\<And>s v. ((s, c), v) \<in> set al \<Longrightarrow> s = sid"
    and up: "w_connections w = AList.update (sid, c) pl al"
    and ok: "\<not> fails w DDB_GetSessionByConnectionID"
  shows "GetSessionByConnectionID w c = Inr pl"
proof -
  from filter_update_own[of c al sid pl] rows obtain rest where
    "filter (\<lambda>(k', p). snd k' = c) (AList.update (sid, c) pl al) = ((sid, c), pl) # rest"
    by blast
  with up ok show ?thesis by (simp add: GetSessionByConnectionID_def)
qed

text \<open>
  Claim C10: when JoinSession is processed for a connection whose context carries no
  authentication claims, the player is registered under the fixed identity
  "anonymous"; so two distinct connections that both join a session without claims
  share one leaderboard score and nickname entry, and after one of them has submitted
  an answer to a question the other's SubmitAnswer for that question is rejected as
  already answered.

  Two accepted joins without claims of distinct connections (neither registered under
  another session), the host's StartGame, and an accepted answer of the first
  connection: both connections are registered as the player "anonymous"; the two joins
  add the single member "anonymous" to the session's sorted set, with score 0, and the
  nickname stored for it is the second one; and the second connection's answer to the
  same question is rejected as already answered, the world unchanged.
\<close>

theorem anonymous_joins_share_one_identity:
  assumes j1: "HandleJoinSession None w0 c1 p1 = (Ok (), w1)"
    and j2: "HandleJoinSession None w1 c2 p2 = (Ok (), w2)"
    and sid: "js_SessionID p1 = sid" "js_SessionID p2 = sid"
    and distinct: "c1 \<noteq> c2"
    and rows1: "\<And>s v. ((s, c1), v) \<in> set (w_connections w0) \<Longrightarrow> s = sid"
    and rows2: "\<And>s v. ((s, c2), v) \<in> set (w_connections w0) \<Longrightarrow> s = sid"
    and start: "HandleStartGame w2 h sid = (Ok (), w3)"
    and a1: "HandleSubmitAnswer w3 c1 a1 = (Ok (), w4)"
    and q: "sa_QuestionID a2 = sa_QuestionID a1"
  shows "GetSessionByConnectionID w2 c1 = Inr (anonymous_player sid c1 (js_Nickname p1))
       \<and> GetSessionByConnectionID w2 c2 = Inr (anonymous_player sid c2 (js_Nickname p2))
       \<and> (\<not> fails w0 Redis_ZAdd \<longrightarrow>
             map_of (zset w2 sid) ''anonymous'' = Some 0
           \<and> fst ` set (zset w2 sid) = insert ''anonymous'' (fst ` set (zset w0 sid)))
       \<and> (\<not> fails w0 Redis_HSet \<longrightarrow>
             map_of (nickname_hash w2 sid) ''anonymous'' = Some (js_Nickname p2))
       \<and> HandleSubmitAnswer w4 c2 a2 = (Err (Msg ''already answered this question''), w4)"
proof -
  let ?pl1 = "anonymous_player sid c1 (js_Nickname p1)"
  let ?pl2 = "anonymous_player sid c2 (js_Nickname p2)"
  note e1 = HandleJoinSession_anonymous[OF j1, unfolded sid]
  note e2 = HandleJoinSession_anonymous[OF j2, unfolded sid]
  note e3 = HandleStartGame_effect(1)[OF start]
  have f3: "w_failing w3 = w_failing w2" using e3 by blast
  have fl: "w_failing w1 = w_failing w0" "w_failing w2 = w_failing w0" "w_failing w3 = w_failing w0"
    using e1(2) e2(2) f3 by (blast intro: trans)+
  obtain conn where "GetSessionByConnectionID w3 c1 = Inr conn"
    using a1 by (cases "GetSessionByConnectionID w3 c1") (simp_all add: HandleSubmitAnswer_def)
  then have ok3: "\<not> fails w3 DDB_GetSessionByConnectionID"
    by (auto simp: GetSessionByConnectionID_def split: if_splits)
  then have ok2: "\<not> fails w2 DDB_GetSessionByConnectionID"
    using fl by (simp add: fails_def)
  \<comment> \<open>the first connection\<close>
  have "filter (\<lambda>(k', p). snd k' = c1) (w_connections w2)
      = filter (\<lambda>(k', p). snd k' = c1) (w_connections w1)"
    using e2(1) distinct by (simp add: filter_update_other)
  moreover obtain rest where
    "filter (\<lambda>(k', p). snd k' = c1) (w_connections w1) = ((sid, c1), ?pl1) # rest"
    using filter_update_own[of c1 "w_connections w0" sid ?pl1] rows1 e1(1) by auto
  ultimately have g1: "GetSessionByConnectionID w2 c1 = Inr ?pl1"
    using ok2 by (simp add: GetSessionByConnectionID_def)
  \<comment> \<open>the second connection\<close>
  have rows2': "\<And>s v. ((s, c2), v) \<in> set (w_connections w1) \<Longrightarrow> s = sid"
  proof -
    fix s v assume "((s, c2), v) \<in> set (w_connections w1)"
    then have "((s, c2), v) \<in> insert ((sid, c1), ?pl1) (set (w_connections w0))"
      using e1(1) set_update_subset by fastforce
    then show "s = sid" using distinct rows2 by auto
  qed
  have g2: "GetSessionByConnectionID w2 c2 = Inr ?pl2"
    by (rule first_row_after_join[OF rows2' e2(1) ok2])
  \<comment> \<open>the leaderboard\<close>
  have lb: "\<not> fails w0 Redis_ZAdd \<longrightarrow>
             map_of (zset w2 sid) ''anonymous'' = Some 0
           \<and> fst ` set (zset w2 sid) = insert ''anonymous'' (fst ` set (zset w0 sid))"
  proof
    assume nf: "\<not> fails w0 Redis_ZAdd"
    then have nf1: "\<not> fails w1 Redis_ZAdd" using fl by (simp add: fails_def)
    have z1: "zset w1 sid = AList.update ''anonymous'' 0 (zset w0 sid)"
      using e1(3) nf by (simp add: zset_def update_conv')
    have z2: "zset w2 sid = AList.update ''anonymous'' 0 (zset w1 sid)"
      using e2(3) nf1 by (simp add: zset_def update_conv')
    show "map_of (zset w2 sid) ''anonymous'' = Some 0
           \<and> fst ` set (zset w2 sid) = insert ''anonymous'' (fst ` set (zset w0 sid))"
      by (simp add: z1 z2 update_conv' keys_update)
  qed
  have nn: "\<not> fails w0 Redis_HSet \<longrightarrow>
             map_of (nickname_hash w2 sid) ''anonymous'' = Some (js_Nickname p2)"
  proof
    assume "\<not> fails w0 Redis_HSet"
    then have "\<not> fails w1 Redis_HSet" using fl by (simp add: fails_def)
    then have "nickname_hash w2 sid
        = AList.update ''anonymous'' (js_Nickname p2) (nickname_hash w1 sid)"
      using e2(4) by (simp add: nickname_hash_def update_conv')
    then show "map_of (nickname_hash w2 sid) ''anonymous'' = Some (js_Nickname p2)"
      by (simp add: update_conv')
  qed
  \<comment> \<open>the two submissions\<close>
  have c3: "w_connections w3 = w_connections w2" using e3 by simp
  have g31: "GetSessionByConnectionID w3 c1 = Inr ?pl1"
    using g1 c3 fl by (simp add: GetSessionByConnectionID_cong[of w3 w2])
  have g32: "GetSessionByConnectionID w3 c2 = Inr ?pl2"
    using g2 c3 fl by (simp add: GetSessionByConnectionID_cong[of w3 w2])
  have "HandleSubmitAnswer w4 c2 a2 = (Err (Msg ''already answered this question''), w4)"
    by (rule second_submission_rejected[OF a1 g31 g32 _ _ q])
       (simp_all add: anonymous_player_def)
  with g1 g2 lb nn show ?thesis by blast
qed

theorem anonymous_joins_share_one_identity_witness:
  "GetSessionByConnectionID joined_twice ''conn-1''
     = Inr (anonymous_player ''s1'' ''conn-1'' ''alice'')
   \<and> GetSessionByConnectionID joined_twice ''conn-2''
     = Inr (anonymous_player ''s1'' ''conn-2'' ''bob'')
   \<and> zset joined_twice ''s1'' = [(''anonymous'', 0)]
   \<and> nickname_hash joined_twice ''s1'' = [(''anonymous'', ''bob'')]
   \<and> zset answered ''s1'' = [(''anonymous'', 1375)]
   \<and> HandleSubmitAnswer answered ''conn-2'' second_submission
     = (Err (Msg ''already answered this question''), answered)"
proof -
  let ?p1 = "\<lparr>js_SessionID = ''s1'', js_Nickname = ''alice''\<rparr>"
  let ?p2 = "\<lparr>js_SessionID = ''s1'', js_Nickname = ''bob''\<rparr>"
  have "fst (HandleJoinSession None sample_world ''conn-1'' ?p1) = Ok ()"
    by code_simp
  then have j1: "HandleJoinSession None sample_world ''conn-1'' ?p1 = (Ok (), joined_once)"
    unfolding joined_once_def by (metis prod.collapse)
  have "fst (HandleJoinSession None joined_once ''conn-2'' ?p2) = Ok ()"
    by code_simp
  then have j2: "HandleJoinSession None joined_once ''conn-2'' ?p2 = (Ok (), joined_twice)"
    unfolding joined_twice_def by (metis prod.collapse)
  have "fst (HandleStartGame joined_twice ''conn-host'' ''s1'') = Ok ()"
    by code_simp
  then have st: "HandleStartGame joined_twice ''conn-host'' ''s1'' = (Ok (), started)"
    unfolding started_def by (metis prod.collapse)
  have "fst (HandleSubmitAnswer started ''conn-1'' first_submission) = Ok ()"
    by code_simp
  then have a1: "HandleSubmitAnswer started ''conn-1'' first_submission = (Ok (), answered)"
    unfolding answered_def by (metis prod.collapse)
  have rows: "\<forall>x \<in> set (w_connections sample_world).
      (snd (fst x) = ''conn-1'' \<longrightarrow> fst (fst x) = ''s1'')
    \<and> (snd (fst x) = ''conn-2'' \<longrightarrow> fst (fst x) = ''s1'')"
    by code_simp
  have rows1: "\<And>s v. ((s, ''conn-1''), v) \<in> set (w_connections sample_world) \<Longrightarrow> s = ''s1''"
    using rows by fastforce
  have rows2: "\<And>s v. ((s, ''conn-2''), v) \<in> set (w_connections sample_world) \<Longrightarrow> s = ''s1''"
    using rows by fastforce
  have q: "sa_QuestionID second_submission = sa_QuestionID first_submission"
    by code_simp
  have d: "''conn-1'' \<noteq> ''conn-2''"
    by simp
  have z: "zset joined_twice ''s1'' = [(''anonymous'', 0)]
         \<and> nickname_hash joined_twice ''s1'' = [(''anonymous'', ''bob'')]
         \<and> zset answered ''s1'' = [(''anonymous'', 1375)]"
    by code_simp
  have s1: "js_SessionID ?p1 = ''s1''" and s2: "js_SessionID ?p2 = ''s1''"
    by simp_all
  from anonymous_joins_share_one_identity[OF j1 j2 s1 s2 d rows1 rows2 st a1 q] z
  show ?thesis by simp
qed

section \<open>The score calculator in float64 arithmetic\<close>























end
